theory Spec2Isabelle
  imports Complex_Main "HOL-Library.AList" "HOL-Library.Sublist"
begin

section \<open>Python values\<close>

text \<open>
  Exceptions are values. \<open>ValueError\<close> is the failed unpacking of \<open>condition.shape\<close>,
  \<open>TypeError\<close> is arithmetic on \<open>None\<close>, \<open>ZeroDivisionError\<close> is \<open>h // 0\<close> (and a split
  of an axis into chunks of length zero),
  \<open>KeyError\<close> a missing dictionary key, \<open>IndexError\<close> is \<open>block_out_channels[0]\<close>
  on an empty tuple, \<open>EinopsError\<close> is what \<open>rearrange\<close> raises on a shape that does
  not fit its pattern, and \<open>RuntimeError\<close> stands for what the tensor framework raises.
\<close>

datatype error =
  ValueError | TypeError | ZeroDivisionError | KeyError | IndexError | EinopsError | RuntimeError

text \<open>Decimal formatting of an integer inside an f-string.\<close>

fun string_of_nat :: "nat \<Rightarrow> string" where
  "string_of_nat n =
     (if n < 10 then [char_of (48 + n)]
      else string_of_nat (n div 10) @ [char_of (48 + n mod 10)])"

declare string_of_nat.simps [simp del]

definition string_of_int :: "int \<Rightarrow> string" where
  "string_of_int i =
     (if i < 0 then CHR ''-'' # string_of_nat (nat (- i)) else string_of_nat (nat i))"

text \<open>Reading decimal digits back: the inverse used to show that formatting is injective.\<close>

definition nat_of_string :: "string \<Rightarrow> nat" where
  "nat_of_string s = foldl (\<lambda>acc c. 10 * acc + (of_char c - 48)) 0 s"

definition floordiv :: "int \<Rightarrow> int \<Rightarrow> error + int" where
  "floordiv a b = (if b = 0 then Inl ZeroDivisionError else Inr (a div b))"

text \<open>\<open>bs, _, video_length, h, w = condition.shape\<close>\<close>

definition unpack5 :: "nat list \<Rightarrow> error + (nat \<times> nat \<times> nat \<times> nat \<times> nat)" where
  "unpack5 sh =
     (case sh of [b, c, f, h, w] \<Rightarrow> Inr (b, c, f, h, w) | _ \<Rightarrow> Inl ValueError)"

section \<open>Tensors and \<open>einops.rearrange\<close>\<close>

datatype dtype = Float16 | BFloat16 | Float32 | Float64

text \<open>
  A tensor is its shape, its element type and its elements in row-major order. The
  elements are of an arbitrary type: no law of floating-point arithmetic is used.
\<close>

record 'a tensor =
  shape :: "nat list"
  dtype :: dtype
  elems :: "'a list"

definition wf_tensor :: "'a tensor \<Rightarrow> bool" where
  "wf_tensor t = (length (elems t) = prod_list (shape t))"

fun chunks :: "nat \<Rightarrow> 'a list \<Rightarrow> 'a list list" where
  "chunks n xs = (if n = 0 \<or> xs = [] then [] else take n xs # chunks n (drop n xs))"

declare chunks.simps [simp del]

text \<open>
  \<open>swap_inner m n k xs\<close> reads \<open>xs\<close> as consecutive blocks, each an \<open>m \<times> n\<close> matrix of
  planes of \<open>k\<close> elements, and transposes every block into an \<open>n \<times> m\<close> matrix of the
  same planes.
\<close>

definition swap_inner :: "nat \<Rightarrow> nat \<Rightarrow> nat \<Rightarrow> 'a list \<Rightarrow> 'a list" where
  "swap_inner m n k xs =
     concat (map (\<lambda>blk. concat (concat (transpose (chunks n (chunks k blk)))))
                 (chunks (m * n * k) xs))"

text \<open>
  The six patterns the source passes to \<open>rearrange\<close>, with the axis lengths it gives:
  \<^item> \<open>Flatten_frames\<close>: \<open>"b c f h w -> (b f) c h w"\<close>
  \<^item> \<open>Flatten_coeff\<close>: \<open>"b f c -> (b f c)"\<close>
  \<^item> \<open>Split_coeff b f d\<close>: \<open>"(b f c) d -> b f c d"\<close>, with \<open>b\<close>, \<open>f\<close>, \<open>d\<close>
  \<^item> \<open>Merge_frames\<close>: \<open>"b f c d -> (b f) c d"\<close>
  \<^item> \<open>Split_frames f\<close>: \<open>"(b f) c d -> b f c d"\<close>, with \<open>f\<close>
  \<^item> \<open>Unflatten_frames f\<close>: \<open>"(b f) c h w -> b c f h w"\<close>, with \<open>f\<close>

  \<open>rearrange\<close> checks the rank first, then each input axis from the left. Where an axis
  is split, it divides the axis by the product of the lengths given: with a product of
  zero the remainder \<open>length % known_product\<close> raises \<open>ZeroDivisionError\<close>, with a
  remainder other than zero \<open>rearrange\<close> raises \<open>EinopsError\<close>, as it does on a wrong
  rank and on an axis whose given length is not its length.
\<close>

datatype pattern =
  Flatten_frames
| Flatten_coeff
| Split_coeff nat nat nat
| Merge_frames
| Split_frames nat
| Unflatten_frames nat

fun rearrange :: "'a tensor \<Rightarrow> pattern \<Rightarrow> error + 'a tensor" where
  "rearrange t Flatten_frames =
     (case shape t of
        [b, c, f, h, w] \<Rightarrow>
          Inr (t\<lparr>shape := [b * f, c, h, w], elems := swap_inner c f (h * w) (elems t)\<rparr>)
      | _ \<Rightarrow> Inl EinopsError)"
| "rearrange t Flatten_coeff =
     (case shape t of
        [b, f, c] \<Rightarrow> Inr (t\<lparr>shape := [b * f * c]\<rparr>)
      | _ \<Rightarrow> Inl EinopsError)"
| "rearrange t (Split_coeff b f d) =
     (case shape t of
        [n, d0] \<Rightarrow>
          if b * f = 0 then Inl ZeroDivisionError
          else if n mod (b * f) \<noteq> 0 then Inl EinopsError
          else if d0 \<noteq> d then Inl EinopsError
          else Inr (t\<lparr>shape := [b, f, n div (b * f), d]\<rparr>)
      | _ \<Rightarrow> Inl EinopsError)"
| "rearrange t Merge_frames =
     (case shape t of
        [b, f, c, d] \<Rightarrow> Inr (t\<lparr>shape := [b * f, c, d]\<rparr>)
      | _ \<Rightarrow> Inl EinopsError)"
| "rearrange t (Split_frames f) =
     (case shape t of
        [n, c, d] \<Rightarrow>
          if f = 0 then Inl ZeroDivisionError
          else if n mod f \<noteq> 0 then Inl EinopsError
          else Inr (t\<lparr>shape := [n div f, f, c, d]\<rparr>)
      | _ \<Rightarrow> Inl EinopsError)"
| "rearrange t (Unflatten_frames f) =
     (case shape t of
        [n, c, h, w] \<Rightarrow>
          if f = 0 then Inl ZeroDivisionError
          else if n mod f \<noteq> 0 then Inl EinopsError
          else Inr (t\<lparr>shape := [n div f, c, f, h, w],
                      elems := swap_inner f c (h * w) (elems t)\<rparr>)
      | _ \<Rightarrow> Inl EinopsError)"

section \<open>Sub-modules and the tensor framework\<close>

text \<open>The constructor arguments of the sub-modules the networks are built from.\<close>

record conv2d =
  in_channels :: nat
  out_channels :: nat
  kernel_size :: nat
  padding :: nat
  bias :: bool

record timesteps =
  num_channels :: nat
  flip_sin_to_cos :: bool
  downscale_freq_shift :: int

record timestep_embedding =
  in_channels :: nat
  time_embed_dim :: nat

record sk_cross_attention =
  channel_in :: nat
  channel_out :: nat
  cross_attention_dim :: nat
  num_positional_embeddings :: nat
  num_positional_embeddings_hidden :: nat

text \<open>The attribute under which a sub-module is registered on the network.\<close>

datatype submodule =
  Conv_in | Conv_up2_down0 | Conv_up1_down1
| Emo_embedding | Exp_embedding
| Exp_proj | Face_proj | Emo_proj
| Blocks_down nat

text \<open>
  What the code calls and does not define: the operators of the tensor framework, the
  embedding layers of the modelling toolkit and the fusion block \<open>SKCrossAttention\<close>
  of \<open>hm_blocks\<close>. Each is a parameter: a function of the sub-module's configuration,
  its learned weights (of type \<open>'p\<close>) and its inputs, which returns a tensor or raises.
\<close>

record ('a, 'p) framework =
  interpolate :: "'a tensor \<Rightarrow> int \<times> int \<Rightarrow> string \<Rightarrow> bool \<Rightarrow> error + 'a tensor"
  conv2d_fwd :: "conv2d \<Rightarrow> 'p \<Rightarrow> 'a tensor \<Rightarrow> error + 'a tensor"
  timesteps_fwd :: "timesteps \<Rightarrow> 'a tensor \<Rightarrow> error + 'a tensor"
  timestep_embedding_fwd :: "timestep_embedding \<Rightarrow> 'p \<Rightarrow> 'a tensor \<Rightarrow> error + 'a tensor"
  sk_cross_attention_fwd ::
    "sk_cross_attention \<Rightarrow> 'p \<Rightarrow> 'a tensor \<Rightarrow> 'a tensor \<Rightarrow> error + 'a tensor"
  mul_scalar :: "'a tensor \<Rightarrow> real \<Rightarrow> error + 'a tensor"
  to_dtype :: "'a tensor \<Rightarrow> dtype \<Rightarrow> error + 'a tensor"
  cat :: "'a tensor list \<Rightarrow> nat \<Rightarrow> error + 'a tensor"

section \<open>The five networks and their constructors\<close>

text \<open>The attributes every variant's \<open>__init__\<close> sets.\<close>

record hm_module =
  scale_factor :: int
  embedding_channels :: nat
  cross_attention_dim :: nat
  conv_in :: conv2d
  exp_embedding :: timesteps
  blocks_down :: "sk_cross_attention list"

record HMControlNet = hm_module +
  exp_proj :: timestep_embedding
  face_proj :: timestep_embedding

record HMControlNet2 = hm_module +
  emo_proj :: timestep_embedding

record HMV2ControlNet = hm_module +
  exp_proj :: timestep_embedding
  face_proj :: timestep_embedding

record HMV3ControlNet = hm_module +
  conv_up2_down0 :: conv2d
  conv_up1_down1 :: conv2d
  emo_embedding :: timesteps
  exp_proj :: timestep_embedding
  face_proj :: timestep_embedding
  emo_proj :: timestep_embedding

record HMV2ControlNet2 = hm_module +
  emo_proj :: timestep_embedding

text \<open>
  \<open>for i in range(1, len(block_out_channels))\<close>: one fusion block per adjacent pair of
  channel widths. \<open>hidden\<close> is \<open>num_positional_embeddings_hidden\<close>.
\<close>

definition make_blocks :: "nat \<Rightarrow> nat \<Rightarrow> nat list \<Rightarrow> sk_cross_attention list" where
  "make_blocks cad hidden block_out_channels =
     map (\<lambda>i. \<lparr>channel_in = block_out_channels ! (i - 1),
               channel_out = block_out_channels ! i,
               sk_cross_attention.cross_attention_dim = cad,
               num_positional_embeddings = 64,
               num_positional_embeddings_hidden = hidden\<rparr>)
         [1..<length block_out_channels]"

definition Conv2d :: "nat \<Rightarrow> nat \<Rightarrow> nat \<Rightarrow> nat \<Rightarrow> bool \<Rightarrow> conv2d" where
  "Conv2d i out k p b =
     \<lparr>conv2d.in_channels = i, out_channels = out, kernel_size = k, padding = p, bias = b\<rparr>"

definition Timesteps :: "nat \<Rightarrow> bool \<Rightarrow> int \<Rightarrow> timesteps" where
  "Timesteps n flip shift =
     \<lparr>num_channels = n, flip_sin_to_cos = flip, downscale_freq_shift = shift\<rparr>"

definition TimestepEmbedding :: "nat \<Rightarrow> nat \<Rightarrow> timestep_embedding" where
  "TimestepEmbedding i d = \<lparr>timestep_embedding.in_channels = i, time_embed_dim = d\<rparr>"

text \<open>
  The constructors. \<open>block_out_channels[0]\<close> raises \<open>IndexError\<close> on an empty tuple;
  nothing else in \<open>__init__\<close> is checked by this code.
\<close>

definition HMControlNet_init ::
  "nat \<Rightarrow> nat \<Rightarrow> int \<Rightarrow> nat \<Rightarrow> nat list \<Rightarrow> error + HMControlNet" where
  "HMControlNet_init embedding_channels' input_channels scale_factor' cross_attention_dim'
       block_out_channels =
     (case block_out_channels of
        [] \<Rightarrow> Inl IndexError
      | c0 # _ \<Rightarrow> Inr
         \<lparr>scale_factor = scale_factor',
          embedding_channels = embedding_channels',
          hm_module.cross_attention_dim = cross_attention_dim',
          conv_in = Conv2d input_channels c0 3 1 False,
          exp_embedding = Timesteps cross_attention_dim' True 0,
          blocks_down = make_blocks cross_attention_dim' 64 block_out_channels,
          HMControlNet.exp_proj = TimestepEmbedding cross_attention_dim' cross_attention_dim',
          HMControlNet.face_proj = TimestepEmbedding 1024 cross_attention_dim'\<rparr>)"

definition HMControlNet2_init ::
  "nat \<Rightarrow> nat \<Rightarrow> int \<Rightarrow> nat \<Rightarrow> nat list \<Rightarrow> error + HMControlNet2" where
  "HMControlNet2_init embedding_channels' input_channels scale_factor' cross_attention_dim'
       block_out_channels =
     (case block_out_channels of
        [] \<Rightarrow> Inl IndexError
      | c0 # _ \<Rightarrow> Inr
         \<lparr>scale_factor = scale_factor',
          embedding_channels = embedding_channels',
          hm_module.cross_attention_dim = cross_attention_dim',
          conv_in = Conv2d input_channels c0 3 1 False,
          exp_embedding = Timesteps cross_attention_dim' True 0,
          blocks_down = make_blocks cross_attention_dim' 1024 block_out_channels,
          HMControlNet2.emo_proj = TimestepEmbedding cross_attention_dim' cross_attention_dim'\<rparr>)"

definition HMV2ControlNet_init ::
  "nat \<Rightarrow> nat \<Rightarrow> int \<Rightarrow> nat \<Rightarrow> nat list \<Rightarrow> error + HMV2ControlNet" where
  "HMV2ControlNet_init embedding_channels' input_channels scale_factor' cross_attention_dim'
       block_out_channels =
     (case block_out_channels of
        [] \<Rightarrow> Inl IndexError
      | c0 # _ \<Rightarrow> Inr
         \<lparr>scale_factor = scale_factor',
          embedding_channels = embedding_channels',
          hm_module.cross_attention_dim = cross_attention_dim',
          conv_in = Conv2d input_channels c0 3 1 False,
          exp_embedding = Timesteps cross_attention_dim' True 0,
          blocks_down = make_blocks cross_attention_dim' 1024 block_out_channels,
          HMV2ControlNet.exp_proj = TimestepEmbedding cross_attention_dim' cross_attention_dim',
          HMV2ControlNet.face_proj = TimestepEmbedding 1024 cross_attention_dim'\<rparr>)"

definition HMV3ControlNet_init ::
  "nat \<Rightarrow> nat \<Rightarrow> int \<Rightarrow> nat \<Rightarrow> nat list \<Rightarrow> error + HMV3ControlNet" where
  "HMV3ControlNet_init embedding_channels' input_channels scale_factor' cross_attention_dim'
       block_out_channels =
     (case block_out_channels of
        [] \<Rightarrow> Inl IndexError
      | c0 # _ \<Rightarrow> Inr
         \<lparr>scale_factor = scale_factor',
          embedding_channels = embedding_channels',
          hm_module.cross_attention_dim = cross_attention_dim',
          conv_in = Conv2d input_channels c0 3 1 False,
          exp_embedding = Timesteps cross_attention_dim' True 0,
          blocks_down = make_blocks cross_attention_dim' 1024 block_out_channels,
          conv_up2_down0 = Conv2d 1280 320 1 0 False,
          conv_up1_down1 = Conv2d 1280 640 1 0 False,
          emo_embedding = Timesteps cross_attention_dim' True 0,
          HMV3ControlNet.exp_proj = TimestepEmbedding cross_attention_dim' cross_attention_dim',
          HMV3ControlNet.face_proj = TimestepEmbedding 1024 cross_attention_dim',
          HMV3ControlNet.emo_proj = TimestepEmbedding cross_attention_dim' cross_attention_dim'\<rparr>)"

definition HMV2ControlNet2_init ::
  "nat \<Rightarrow> nat \<Rightarrow> int \<Rightarrow> nat \<Rightarrow> nat list \<Rightarrow> error + HMV2ControlNet2" where
  "HMV2ControlNet2_init embedding_channels' input_channels scale_factor' cross_attention_dim'
       block_out_channels =
     (case block_out_channels of
        [] \<Rightarrow> Inl IndexError
      | c0 # _ \<Rightarrow> Inr
         \<lparr>scale_factor = scale_factor',
          embedding_channels = embedding_channels',
          hm_module.cross_attention_dim = cross_attention_dim',
          conv_in = Conv2d input_channels c0 3 1 False,
          exp_embedding = Timesteps cross_attention_dim' True 0,
          blocks_down = make_blocks cross_attention_dim' 1024 block_out_channels,
          HMV2ControlNet2.emo_proj = TimestepEmbedding cross_attention_dim' cross_attention_dim'\<rparr>)"

section \<open>Execution: the world, the call log and the object store\<close>

text \<open>
  What a forward call can read or touch: the network object (\<open>net\<close>: Python's \<open>self\<close>), the learned
  weights of its sub-modules (\<open>params\<close>, by attribute), the tensor objects the returned
  dictionary refers to (\<open>heap\<close>: a reference is an index into it) and the log of the
  operations performed, each with its arguments and the exception it raised, if any.
\<close>

datatype opname =
  Unpack | FloorDiv | Rearrange pattern | Interpolate | Mul real | To | Cat
| GetItem string | Call submodule

datatype 'a event = Event (ev_op: opname) (ev_args: "'a tensor list") (ev_err: "error option")

record ('a, 'p, 'n) world =
  net :: 'n
  params :: "submodule \<Rightarrow> 'p"
  heap :: "'a tensor list"
  log :: "'a event list"

type_synonym ('a, 'p, 'n, 'x) hm = "('a, 'p, 'n) world \<Rightarrow> (error + 'x) \<times> ('a, 'p, 'n) world"

definition ret :: "'x \<Rightarrow> ('a, 'p, 'n, 'x) hm" where
  "ret x = (\<lambda>w. (Inr x, w))"

definition bnd :: "('a, 'p, 'n, 'x) hm \<Rightarrow> ('x \<Rightarrow> ('a, 'p, 'n, 'y) hm) \<Rightarrow> ('a, 'p, 'n, 'y) hm" where
  "bnd m f = (\<lambda>w. case m w of (Inl e, w') \<Rightarrow> (Inl e, w') | (Inr x, w') \<Rightarrow> f x w')"

definition err_of :: "error + 'x \<Rightarrow> error option" where
  "err_of r = (case r of Inl e \<Rightarrow> Some e | Inr _ \<Rightarrow> None)"

text \<open>An operation that may raise: it is logged with its outcome.\<close>

definition prim :: "opname \<Rightarrow> 'a tensor list \<Rightarrow> error + 'x \<Rightarrow> ('a, 'p, 'n, 'x) hm" where
  "prim opn args r = (\<lambda>w. (r, w\<lparr>log := log w @ [Event opn args (err_of r)]\<rparr>))"

definition get_self :: "('a, 'p, 'n, 'n) hm" where
  "get_self = (\<lambda>w. (Inr (net w), w))"

definition get_param :: "submodule \<Rightarrow> ('a, 'p, 'n, 'p) hm" where
  "get_param nm = (\<lambda>w. (Inr (params w nm), w))"

text \<open>A tensor bound into the dictionary becomes an object of its own.\<close>

definition new_object :: "'a tensor \<Rightarrow> ('a, 'p, 'n, nat) hm" where
  "new_object t = (\<lambda>w. (Inr (length (heap w)), w\<lparr>heap := heap w @ [t]\<rparr>))"

text \<open>
  The returned dictionary: keys in insertion order, each with a reference.
  \<open>ret_dict[k] = v\<close> is \<open>AList.update k v\<close>; \<open>ret_dict[k]\<close> raises on a missing key.
\<close>

type_synonym ret_dict = "(string \<times> nat) list"

definition getitem :: "ret_dict \<Rightarrow> string \<Rightarrow> ('a, 'p, 'n, nat) hm" where
  "getitem d k =
     prim (GetItem k) [] (case map_of d k of None \<Rightarrow> Inl KeyError | Some r \<Rightarrow> Inr r)"

definition rearrange_m :: "'a tensor \<Rightarrow> pattern \<Rightarrow> ('a, 'p, 'n, 'a tensor) hm" where
  "rearrange_m t p = prim (Rearrange p) [t] (rearrange t p)"

text \<open>\<open>x * c\<close> for a Python float \<open>c\<close>: a \<open>TypeError\<close> when \<open>x\<close> is \<open>None\<close>.\<close>

definition py_mul :: "('a, 'p) framework \<Rightarrow> 'a tensor option \<Rightarrow> real \<Rightarrow> ('a, 'p, 'n, 'a tensor) hm" where
  "py_mul fw x c =
     (case x of
        None \<Rightarrow> prim (Mul c) [] (Inl TypeError)
      | Some t \<Rightarrow> prim (Mul c) [t] (mul_scalar fw t c))"

text \<open>Calling a sub-module \<open>self.nm(x)\<close>: its configuration is read from \<open>self\<close>.\<close>

definition call_conv2d ::
  "('a, 'p) framework \<Rightarrow> submodule \<Rightarrow> ('n \<Rightarrow> conv2d) \<Rightarrow> 'a tensor \<Rightarrow> ('a, 'p, 'n, 'a tensor) hm" where
  "call_conv2d fw nm sel x =
     bnd get_self (\<lambda>self. bnd (get_param nm) (\<lambda>wt.
       prim (Call nm) [x] (conv2d_fwd fw (sel self) wt x)))"

definition call_timesteps ::
  "('a, 'p) framework \<Rightarrow> submodule \<Rightarrow> ('n \<Rightarrow> timesteps) \<Rightarrow> 'a tensor \<Rightarrow> ('a, 'p, 'n, 'a tensor) hm" where
  "call_timesteps fw nm sel x =
     bnd get_self (\<lambda>self. prim (Call nm) [x] (timesteps_fwd fw (sel self) x))"

definition call_timestep_embedding ::
  "('a, 'p) framework \<Rightarrow> submodule \<Rightarrow> ('n \<Rightarrow> timestep_embedding) \<Rightarrow> 'a tensor
     \<Rightarrow> ('a, 'p, 'n, 'a tensor) hm" where
  "call_timestep_embedding fw nm sel x =
     bnd get_self (\<lambda>self. bnd (get_param nm) (\<lambda>wt.
       prim (Call nm) [x] (timestep_embedding_fwd fw (sel self) wt x)))"

definition call_block ::
  "('a, 'p) framework \<Rightarrow> nat \<Rightarrow> sk_cross_attention \<Rightarrow> 'a tensor \<Rightarrow> 'a tensor
     \<Rightarrow> ('a, 'p, 'n, 'a tensor) hm" where
  "call_block fw idx block embedding drive_embedding =
     bnd (get_param (Blocks_down idx)) (\<lambda>wt.
       prim (Call (Blocks_down idx)) [embedding, drive_embedding]
            (sk_cross_attention_fwd fw block wt embedding drive_embedding))"

section \<open>The forward passes\<close>

text \<open>
  The first four statements of every \<open>forward\<close>: unpack the shape, flatten the frames
  into the batch, interpolate down by \<open>scale_factor\<close>, and apply \<open>conv_in\<close>.
\<close>

definition embed_condition ::
  "('a, 'p) framework \<Rightarrow> 'a tensor
     \<Rightarrow> ('a, 'p, 'z hm_module_scheme, nat \<times> nat \<times> 'a tensor) hm" where
  "embed_condition fw condition =
     bnd (prim Unpack [condition] (unpack5 (shape condition))) (\<lambda>(bs, c, video_length, h, w).
     bnd (rearrange_m condition Flatten_frames) (\<lambda>condition.
     bnd get_self (\<lambda>self.
     bnd (prim FloorDiv [] (floordiv (int h) (scale_factor self))) (\<lambda>h'.
     bnd get_self (\<lambda>self.
     bnd (prim FloorDiv [] (floordiv (int w) (scale_factor self))) (\<lambda>w'.
     bnd (prim Interpolate [condition] (interpolate fw condition (h', w') ''bilinear'' False))
       (\<lambda>conditioning.
     bnd (call_conv2d fw Conv_in conv_in conditioning) (\<lambda>embedding.
     ret (bs, video_length, embedding)))))))))"

text \<open>
  The dual-signal branch: expression coefficients times 500 through the sinusoidal
  encoder, face parts through \<open>face_proj\<close>, concatenated on the region axis, through
  \<open>exp_proj\<close>.
\<close>

definition dual_signal ::
  "('a, 'p) framework \<Rightarrow> ('z hm_module_scheme \<Rightarrow> timestep_embedding)
     \<Rightarrow> ('z hm_module_scheme \<Rightarrow> timestep_embedding)
     \<Rightarrow> nat \<Rightarrow> nat \<Rightarrow> 'a tensor \<Rightarrow> 'a tensor \<Rightarrow> 'a tensor
     \<Rightarrow> ('a, 'p, 'z hm_module_scheme, 'a tensor) hm" where
  "dual_signal fw exp_proj_of face_proj_of bs video_length embedding drive_coeff face_parts =
     bnd (py_mul fw (Some drive_coeff) 500) (\<lambda>drive_coeff.
     bnd (rearrange_m drive_coeff Flatten_coeff) (\<lambda>drive_coeff.
     bnd (call_timesteps fw Exp_embedding exp_embedding drive_coeff) (\<lambda>drive_embedding.
     bnd (prim To [drive_embedding] (to_dtype fw drive_embedding (dtype embedding)))
       (\<lambda>drive_embedding.
     bnd get_self (\<lambda>self.
     bnd (rearrange_m drive_embedding
            (Split_coeff bs video_length (hm_module.cross_attention_dim self)))
       (\<lambda>drive_embedding.
     bnd (rearrange_m face_parts Merge_frames) (\<lambda>face_parts.
     bnd (call_timestep_embedding fw Face_proj face_proj_of face_parts) (\<lambda>face_embedding.
     bnd (rearrange_m face_embedding (Split_frames video_length)) (\<lambda>face_embedding.
     bnd (prim Cat [face_embedding, drive_embedding]
            (cat fw [face_embedding, drive_embedding] 2)) (\<lambda>drive_embedding.
     bnd (rearrange_m drive_embedding Merge_frames) (\<lambda>drive_embedding.
     call_timestep_embedding fw Exp_proj exp_proj_of drive_embedding)))))))))))"

text \<open>
  The emotion branch: the emotion embedding \<open>emo\<close> (the argument \<open>emo_embedding\<close>
  of the source, whose name is an attribute here) times 20 through the sinusoidal encoder
  registered as \<open>enc\<close>, then through \<open>emo_proj\<close>.
\<close>

definition emo_signal ::
  "('a, 'p) framework \<Rightarrow> submodule \<Rightarrow> ('z hm_module_scheme \<Rightarrow> timesteps)
     \<Rightarrow> ('z hm_module_scheme \<Rightarrow> timestep_embedding)
     \<Rightarrow> nat \<Rightarrow> nat \<Rightarrow> 'a tensor \<Rightarrow> 'a tensor option
     \<Rightarrow> ('a, 'p, 'z hm_module_scheme, 'a tensor) hm" where
  "emo_signal fw enc enc_of emo_proj_of bs video_length embedding emo =
     bnd (py_mul fw emo 20) (\<lambda>emo_coeff.
     bnd (rearrange_m emo_coeff Flatten_coeff) (\<lambda>emo_coeff.
     bnd (call_timesteps fw enc enc_of emo_coeff) (\<lambda>emo.
     bnd (prim To [emo] (to_dtype fw emo (dtype embedding))) (\<lambda>emo.
     bnd get_self (\<lambda>self.
     bnd (rearrange_m emo (Split_coeff bs video_length (hm_module.cross_attention_dim self)))
       (\<lambda>emo.
     bnd (rearrange_m emo Merge_frames) (\<lambda>emo.
     call_timestep_embedding fw Emo_proj emo_proj_of emo)))))))"

text \<open>
  \<open>for idx, block in enumerate(self.blocks_down)\<close> of the four variants that store one
  entry per block; \<open>key_of self idx\<close> is the f-string of the variant.
\<close>

fun blocks_loop ::
  "('a, 'p) framework \<Rightarrow> ('n \<Rightarrow> nat \<Rightarrow> string) \<Rightarrow> nat \<Rightarrow> sk_cross_attention list \<Rightarrow> nat
     \<Rightarrow> 'a tensor \<Rightarrow> 'a tensor \<Rightarrow> ret_dict \<Rightarrow> ('a, 'p, 'n, ret_dict) hm" where
  "blocks_loop fw key_of video_length [] idx embedding drive_embedding ret_dict = ret ret_dict"
| "blocks_loop fw key_of video_length (block # rest) idx embedding drive_embedding ret_dict =
     bnd (call_block fw idx block embedding drive_embedding) (\<lambda>embedding.
     bnd (rearrange_m embedding (Unflatten_frames video_length)) (\<lambda>t.
     bnd (new_object t) (\<lambda>r.
     bnd get_self (\<lambda>self.
     blocks_loop fw key_of video_length rest (Suc idx) embedding drive_embedding
       (AList.update (key_of self idx) r ret_dict)))))"

definition down_key :: "'n \<Rightarrow> nat \<Rightarrow> string" where
  "down_key self idx = ''down_'' @ string_of_nat idx"

definition down2_key :: "'n \<Rightarrow> nat \<Rightarrow> string" where
  "down2_key self idx = ''down2_'' @ string_of_nat idx"

text \<open>\<open>len(self.blocks_down) - idx - 1\<close>, on Python's integers.\<close>

definition up_idx_of :: "'z hm_module_scheme \<Rightarrow> nat \<Rightarrow> int" where
  "up_idx_of self idx = int (length (blocks_down self)) - int idx - 1"

definition up_v2_key :: "'z hm_module_scheme \<Rightarrow> nat \<Rightarrow> string" where
  "up_v2_key self idx = ''up_v2_'' @ string_of_int (up_idx_of self idx)"

definition up2_v2_key :: "'z hm_module_scheme \<Rightarrow> nat \<Rightarrow> string" where
  "up2_v2_key self idx = ''up2_v2_'' @ string_of_int (up_idx_of self idx)"

definition HMControlNet_forward ::
  "('a, 'p) framework \<Rightarrow> 'a tensor \<Rightarrow> 'a tensor \<Rightarrow> 'a tensor
     \<Rightarrow> ('a, 'p, HMControlNet, ret_dict) hm" where
  "HMControlNet_forward fw condition drive_coeff face_parts =
     bnd (embed_condition fw condition) (\<lambda>(bs, video_length, embedding).
     bnd (dual_signal fw HMControlNet.exp_proj HMControlNet.face_proj bs video_length
            embedding drive_coeff face_parts) (\<lambda>drive_embedding.
     bnd get_self (\<lambda>self.
     blocks_loop fw down_key video_length (blocks_down self) 0 embedding drive_embedding [])))"

definition HMControlNet2_forward ::
  "('a, 'p) framework \<Rightarrow> 'a tensor \<Rightarrow> 'a tensor \<Rightarrow> ('a, 'p, HMControlNet2, ret_dict) hm" where
  "HMControlNet2_forward fw condition emo =
     bnd (embed_condition fw condition) (\<lambda>(bs, video_length, embedding).
     bnd (emo_signal fw Exp_embedding exp_embedding HMControlNet2.emo_proj bs video_length
            embedding (Some emo)) (\<lambda>drive_embedding.
     bnd get_self (\<lambda>self.
     blocks_loop fw down2_key video_length (blocks_down self) 0 embedding drive_embedding [])))"

definition HMV2ControlNet_forward ::
  "('a, 'p) framework \<Rightarrow> 'a tensor \<Rightarrow> 'a tensor \<Rightarrow> 'a tensor
     \<Rightarrow> ('a, 'p, HMV2ControlNet, ret_dict) hm" where
  "HMV2ControlNet_forward fw condition drive_coeff face_parts =
     bnd (embed_condition fw condition) (\<lambda>(bs, video_length, embedding).
     bnd (dual_signal fw HMV2ControlNet.exp_proj HMV2ControlNet.face_proj bs video_length
            embedding drive_coeff face_parts) (\<lambda>drive_embedding.
     bnd get_self (\<lambda>self.
     blocks_loop fw up_v2_key video_length (blocks_down self) 0 embedding drive_embedding [])))"

definition HMV2ControlNet2_forward ::
  "('a, 'p) framework \<Rightarrow> 'a tensor \<Rightarrow> 'a tensor \<Rightarrow> ('a, 'p, HMV2ControlNet2, ret_dict) hm" where
  "HMV2ControlNet2_forward fw condition emo =
     bnd (embed_condition fw condition) (\<lambda>(bs, video_length, embedding).
     bnd (emo_signal fw Exp_embedding exp_embedding HMV2ControlNet2.emo_proj bs video_length
            embedding (Some emo)) (\<lambda>drive_embedding.
     bnd get_self (\<lambda>self.
     blocks_loop fw up2_v2_key video_length (blocks_down self) 0 embedding drive_embedding [])))"

text \<open>
  The loop of \<open>HMV3ControlNet\<close>: every block's output under \<open>up3_{up_idx}\<close>; at
  \<open>up_idx\<close> 2 and 1 a 1x1 convolution of it under \<open>down3_0\<close> and \<open>down3_1\<close>; at
  \<open>up_idx\<close> 0 the entry \<open>up3_0\<close> again under \<open>down3_2\<close> and \<open>down3_3\<close>.
\<close>

definition adapter_entry ::
  "('a, 'p) framework \<Rightarrow> submodule \<Rightarrow> (HMV3ControlNet \<Rightarrow> conv2d) \<Rightarrow> string \<Rightarrow> nat
     \<Rightarrow> 'a tensor \<Rightarrow> ret_dict \<Rightarrow> ('a, 'p, HMV3ControlNet, ret_dict) hm" where
  "adapter_entry fw nm sel k video_length embedding ret_dict =
     bnd (call_conv2d fw nm sel embedding) (\<lambda>x.
     bnd (rearrange_m x (Unflatten_frames video_length)) (\<lambda>t.
     bnd (new_object t) (\<lambda>r.
     ret (AList.update k r ret_dict))))"

definition alias_entries :: "ret_dict \<Rightarrow> ('a, 'p, HMV3ControlNet, ret_dict) hm" where
  "alias_entries ret_dict =
     bnd (getitem ret_dict ''up3_0'') (\<lambda>r.
     bnd (ret (AList.update ''down3_2'' r ret_dict)) (\<lambda>ret_dict.
     bnd (getitem ret_dict ''up3_0'') (\<lambda>r.
     ret (AList.update ''down3_3'' r ret_dict))))"

fun HMV3_loop ::
  "('a, 'p) framework \<Rightarrow> nat \<Rightarrow> sk_cross_attention list \<Rightarrow> nat
     \<Rightarrow> 'a tensor \<Rightarrow> 'a tensor \<Rightarrow> ret_dict \<Rightarrow> ('a, 'p, HMV3ControlNet, ret_dict) hm" where
  "HMV3_loop fw video_length [] idx embedding drive_embedding ret_dict = ret ret_dict"
| "HMV3_loop fw video_length (block # rest) idx embedding drive_embedding ret_dict =
     bnd (call_block fw idx block embedding drive_embedding) (\<lambda>embedding.
     bnd get_self (\<lambda>self.
     bnd (ret (up_idx_of self idx)) (\<lambda>up_idx.
     bnd (rearrange_m embedding (Unflatten_frames video_length)) (\<lambda>t.
     bnd (new_object t) (\<lambda>r.
     bnd (ret (AList.update (''up3_'' @ string_of_int up_idx) r ret_dict)) (\<lambda>ret_dict.
     bnd (if up_idx = 2
          then adapter_entry fw Conv_up2_down0 conv_up2_down0 ''down3_0'' video_length
                 embedding ret_dict
          else ret ret_dict) (\<lambda>ret_dict.
     bnd (if up_idx = 1
          then adapter_entry fw Conv_up1_down1 conv_up1_down1 ''down3_1'' video_length
                 embedding ret_dict
          else ret ret_dict) (\<lambda>ret_dict.
     bnd (if up_idx = 0 then alias_entries ret_dict else ret ret_dict) (\<lambda>ret_dict.
     HMV3_loop fw video_length rest (Suc idx) embedding drive_embedding ret_dict)))))))))"

text \<open>
  \<open>if drive_coeff is None or face_parts is None\<close> sends a call to the emotion branch
  unless both are given.
\<close>

definition HMV3_drive ::
  "('a, 'p) framework \<Rightarrow> nat \<Rightarrow> nat \<Rightarrow> 'a tensor \<Rightarrow> 'a tensor option \<Rightarrow> 'a tensor option
     \<Rightarrow> 'a tensor option \<Rightarrow> ('a, 'p, HMV3ControlNet, 'a tensor) hm" where
  "HMV3_drive fw bs video_length embedding drive_coeff face_parts emo =
     (case drive_coeff of
        None \<Rightarrow> emo_signal fw Emo_embedding HMV3ControlNet.emo_embedding
                  HMV3ControlNet.emo_proj bs video_length embedding emo
      | Some dc \<Rightarrow>
         (case face_parts of
            None \<Rightarrow> emo_signal fw Emo_embedding HMV3ControlNet.emo_embedding
                      HMV3ControlNet.emo_proj bs video_length embedding emo
          | Some fp \<Rightarrow> dual_signal fw HMV3ControlNet.exp_proj HMV3ControlNet.face_proj
                         bs video_length embedding dc fp))"

definition HMV3ControlNet_forward ::
  "('a, 'p) framework \<Rightarrow> 'a tensor \<Rightarrow> 'a tensor option \<Rightarrow> 'a tensor option
     \<Rightarrow> 'a tensor option \<Rightarrow> ('a, 'p, HMV3ControlNet, ret_dict) hm" where
  "HMV3ControlNet_forward fw condition drive_coeff face_parts emo =
     bnd (embed_condition fw condition) (\<lambda>(bs, video_length, embedding).
     bnd (HMV3_drive fw bs video_length embedding drive_coeff face_parts emo)
       (\<lambda>drive_embedding.
     bnd get_self (\<lambda>self.
     HMV3_loop fw video_length (blocks_down self) 0 embedding drive_embedding [])))"

section \<open>Observations on a run\<close>

text \<open>
  \<open>all_events P m\<close>: a run of \<open>m\<close> only appends to the log, and every event it appends
  satisfies \<open>P\<close>. \<open>yields m x\<close>: some run of \<open>m\<close> returns \<open>x\<close>.
\<close>

definition all_events :: "('a event \<Rightarrow> bool) \<Rightarrow> ('a, 'p, 'n, 'x) hm \<Rightarrow> bool" where
  "all_events P m = (\<forall>w. \<exists>evs. log (snd (m w)) = log w @ evs \<and> list_all P evs)"

definition yields :: "('a, 'p, 'n, 'x) hm \<Rightarrow> 'x \<Rightarrow> bool" where
  "yields m x = (\<exists>w w'. m w = (Inr x, w'))"

text \<open>The events a run of \<open>m\<close> from \<open>w\<close> appends to the log.\<close>

definition events_of :: "('a, 'p, 'n, 'x) hm \<Rightarrow> ('a, 'p, 'n) world \<Rightarrow> 'a event list" where
  "events_of m w = drop (length (log w)) (log (snd (m w)))"

text \<open>
  An exception passes through unhandled when the run ends with the operation that
  raised it, every operation before it returned, and the run's result is that exception;
  a run that returns has no failed operation behind it.
\<close>

definition propagates :: "error + 'x \<Rightarrow> 'a event list \<Rightarrow> bool" where
  "propagates r evs =
     (case r of
        Inr _ \<Rightarrow> list_all (\<lambda>ev. ev_err ev = None) evs
      | Inl e \<Rightarrow> evs \<noteq> [] \<and> ev_err (last evs) = Some e
                 \<and> list_all (\<lambda>ev. ev_err ev = None) (butlast evs))"

definition unhandled :: "('a, 'p, 'n, 'x) hm \<Rightarrow> bool" where
  "unhandled m = (\<forall>w. \<exists>evs. log (snd (m w)) = log w @ evs \<and> propagates (fst (m w)) evs)"

text \<open>
  What a run leaves as it found it: the network object, the learned weights, and the
  tensor objects that existed before.
\<close>

definition preserved :: "('a, 'p, 'n) world \<Rightarrow> ('a, 'p, 'n) world \<Rightarrow> bool" where
  "preserved w w' = (net w' = net w \<and> params w' = params w \<and> prefix (heap w) (heap w'))"

definition reads_only :: "('a, 'p, 'n, 'x) hm \<Rightarrow> bool" where
  "reads_only m = (\<forall>w. preserved w (snd (m w)))"



text \<open>
  What each branch computes, as a function of what it uses: the framework, the
  configuration and the weights of its own sub-modules, \<open>cross_attention_dim\<close>, the
  batch and frame counts, the element type of the embedding, and its inputs.
  \<open>then_do\<close> passes an exception on.
\<close>

definition then_do :: "error + 'x \<Rightarrow> ('x \<Rightarrow> error + 'y) \<Rightarrow> error + 'y" where
  "then_do r f = (case r of Inl e \<Rightarrow> Inl e | Inr x \<Rightarrow> f x)"

definition dual_value ::
  "('a, 'p) framework \<Rightarrow> timesteps \<Rightarrow> timestep_embedding \<Rightarrow> 'p \<Rightarrow> timestep_embedding \<Rightarrow> 'p
     \<Rightarrow> nat \<Rightarrow> nat \<Rightarrow> nat \<Rightarrow> dtype \<Rightarrow> 'a tensor \<Rightarrow> 'a tensor \<Rightarrow> error + 'a tensor" where
  "dual_value fw exp_embedding_cfg face_proj_cfg face_proj_wt exp_proj_cfg exp_proj_wt
       cad bs video_length dt drive_coeff face_parts =
     then_do (mul_scalar fw drive_coeff 500) (\<lambda>x.
     then_do (rearrange x Flatten_coeff) (\<lambda>x.
     then_do (timesteps_fwd fw exp_embedding_cfg x) (\<lambda>de.
     then_do (to_dtype fw de dt) (\<lambda>de.
     then_do (rearrange de (Split_coeff bs video_length cad)) (\<lambda>de.
     then_do (rearrange face_parts Merge_frames) (\<lambda>fp.
     then_do (timestep_embedding_fwd fw face_proj_cfg face_proj_wt fp) (\<lambda>fe.
     then_do (rearrange fe (Split_frames video_length)) (\<lambda>fe.
     then_do (cat fw [fe, de] 2) (\<lambda>de.
     then_do (rearrange de Merge_frames) (\<lambda>de.
     timestep_embedding_fwd fw exp_proj_cfg exp_proj_wt de))))))))))"

definition emo_value ::
  "('a, 'p) framework \<Rightarrow> timesteps \<Rightarrow> timestep_embedding \<Rightarrow> 'p
     \<Rightarrow> nat \<Rightarrow> nat \<Rightarrow> nat \<Rightarrow> dtype \<Rightarrow> 'a tensor option \<Rightarrow> error + 'a tensor" where
  "emo_value fw emo_embedding_cfg emo_proj_cfg emo_proj_wt cad bs video_length dt emo =
     then_do (case emo of None \<Rightarrow> Inl TypeError | Some x \<Rightarrow> mul_scalar fw x 20) (\<lambda>x.
     then_do (rearrange x Flatten_coeff) (\<lambda>x.
     then_do (timesteps_fwd fw emo_embedding_cfg x) (\<lambda>ee.
     then_do (to_dtype fw ee dt) (\<lambda>ee.
     then_do (rearrange ee (Split_coeff bs video_length cad)) (\<lambda>ee.
     then_do (rearrange ee Merge_frames) (\<lambda>ee.
     timestep_embedding_fwd fw emo_proj_cfg emo_proj_wt ee))))))"









section \<open>The fusion chain and its shapes\<close>

text \<open>
  The successive outputs of the fusion chain: block \<open>idx\<close> applied to the embedding,
  the next block to its output, and so on, each with the same driving embedding. The
  list ends where a block raises.
\<close>

fun block_outputs ::
  "('a, 'p) framework \<Rightarrow> (submodule \<Rightarrow> 'p) \<Rightarrow> sk_cross_attention list \<Rightarrow> nat
     \<Rightarrow> 'a tensor \<Rightarrow> 'a tensor \<Rightarrow> 'a tensor list" where
  "block_outputs fw ps [] idx e d = []"
| "block_outputs fw ps (b # bs) idx e d =
     (case sk_cross_attention_fwd fw b (ps (Blocks_down idx)) e d of
        Inl _ \<Rightarrow> []
      | Inr e' \<Rightarrow> e' # block_outputs fw ps bs (Suc idx) e' d)"

text \<open>
  The shape contract of the operators that produce feature maps: what \<open>interpolate\<close>,
  a convolution and a fusion block return is of rank 4 with the batch axis of its input,
  and a convolution and a fusion block return the number of channels they are
  configured with.
\<close>

definition shape_contract :: "('a, 'p) framework \<Rightarrow> bool" where
  "shape_contract fw =
     ((\<forall>t size mode ac t'. interpolate fw t size mode ac = Inr t' \<longrightarrow>
          length (shape t') = 4 \<and> shape t' ! 0 = shape t ! 0)
    \<and> (\<forall>cfg p t t'. conv2d_fwd fw cfg p t = Inr t' \<longrightarrow>
          length (shape t') = 4 \<and> shape t' ! 0 = shape t ! 0
          \<and> shape t' ! 1 = out_channels cfg)
    \<and> (\<forall>cfg p e d t'. sk_cross_attention_fwd fw cfg p e d = Inr t' \<longrightarrow>
          length (shape t') = 4 \<and> shape t' ! 0 = shape e ! 0
          \<and> shape t' ! 1 = channel_out cfg))"

text \<open>
  A feature map of batch \<open>B\<close>, \<open>c\<close> channels and \<open>F\<close> frames:
  \<open>(B, c, F, h, w)\<close> for some \<open>h\<close> and \<open>w\<close>.
\<close>

definition feature_map :: "nat \<Rightarrow> nat \<Rightarrow> nat \<Rightarrow> 'a tensor \<Rightarrow> bool" where
  "feature_map B c F t = (length (shape t) = 5 \<and> take 3 (shape t) = [B, c, F])"

text \<open>
  The channel width of the stage a key belongs to, in the four variants that store one
  entry per fusion block under \<open>key_of self idx\<close>: the \<open>channel_out\<close> of that block.
\<close>

definition stage_width ::
  "('z hm_module_scheme \<Rightarrow> nat \<Rightarrow> string) \<Rightarrow> 'z hm_module_scheme \<Rightarrow> string \<Rightarrow> nat \<Rightarrow> bool" where
  "stage_width key_of self k c =
     (\<exists>i<length (blocks_down self). k = key_of self i \<and> c = channel_out (blocks_down self ! i))"

text \<open>A computation that creates no tensor object.\<close>

definition keeps_heap :: "('a, 'p, 'n, 'x) hm \<Rightarrow> bool" where
  "keeps_heap m = (\<forall>w. heap (snd (m w)) = heap w)"

text \<open>The keys \<open>HMV3ControlNet\<close> writes at \<open>up_idx = u\<close>, in the order it writes them.\<close>

definition HMV3_stage_keys :: "int \<Rightarrow> string list" where
  "HMV3_stage_keys u =
     [''up3_'' @ string_of_int u]
     @ (if u = 2 then [''down3_0''] else [])
     @ (if u = 1 then [''down3_1''] else [])
     @ (if u = 0 then [''down3_2'', ''down3_3''] else [])"

definition HMV3_keys :: "nat \<Rightarrow> string list" where
  "HMV3_keys N = concat (map (\<lambda>i. HMV3_stage_keys (int N - int i - 1)) [0..<N])"

text \<open>
  The channel width of the stage a key of \<open>HMV3ControlNet\<close> belongs to: that of the
  block for \<open>up3_*\<close>, that of the adapter convolution for \<open>down3_0\<close> and \<open>down3_1\<close>,
  that of the last block for \<open>down3_2\<close> and \<open>down3_3\<close>.
\<close>

definition HMV3_width :: "HMV3ControlNet \<Rightarrow> string \<Rightarrow> nat \<Rightarrow> bool" where
  "HMV3_width self k c =
     (let bl = blocks_down self; N = length bl in
        (\<exists>i<N. k = ''up3_'' @ string_of_int (int N - int i - 1) \<and> c = channel_out (bl ! i))
      \<or> (k = ''down3_0'' \<and> c = out_channels (conv_up2_down0 self))
      \<or> (k = ''down3_1'' \<and> c = out_channels (conv_up1_down1 self))
      \<or> ((k = ''down3_2'' \<or> k = ''down3_3'') \<and> 0 < N \<and> c = channel_out (last bl)))"

section \<open>A stand-in framework for concrete runs\<close>

text \<open>
  To run the model on concrete inputs the operators need values. In \<open>shape_fw\<close> every
  operator checks the shape of its input as the real one does and returns zeros of the
  output shape; multiplication by a scalar is computed. The networks below are built
  with the default arguments of the constructors.
\<close>

definition zeros :: "nat list \<Rightarrow> dtype \<Rightarrow> real tensor" where
  "zeros sh d = \<lparr>shape = sh, dtype = d, elems = replicate (prod_list sh) 0\<rparr>"

definition shape_fw :: "(real, nat) framework" where
  "shape_fw =
     \<lparr>interpolate = (\<lambda>t size mode align_corners.
        case shape t of
          [n, c, h, w] \<Rightarrow>
            if 0 < fst size \<and> 0 < snd size
            then Inr (zeros [n, c, nat (fst size), nat (snd size)] (dtype t))
            else Inl RuntimeError
        | _ \<Rightarrow> Inl RuntimeError),
      conv2d_fwd = (\<lambda>cfg wt t.
        case shape t of
          [n, c, h, w] \<Rightarrow>
            if c = conv2d.in_channels cfg \<and> kernel_size cfg \<le> h + 2 * padding cfg
               \<and> kernel_size cfg \<le> w + 2 * padding cfg
            then Inr (zeros [n, out_channels cfg, h + 2 * padding cfg + 1 - kernel_size cfg,
                             w + 2 * padding cfg + 1 - kernel_size cfg] (dtype t))
            else Inl RuntimeError
        | _ \<Rightarrow> Inl RuntimeError),
      timesteps_fwd = (\<lambda>cfg t.
        case shape t of
          [n] \<Rightarrow> Inr (zeros [n, num_channels cfg] Float32)
        | _ \<Rightarrow> Inl RuntimeError),
      timestep_embedding_fwd = (\<lambda>cfg wt t.
        if shape t \<noteq> [] \<and> last (shape t) = timestep_embedding.in_channels cfg
        then Inr (zeros (butlast (shape t) @ [time_embed_dim cfg]) (dtype t))
        else Inl RuntimeError),
      sk_cross_attention_fwd = (\<lambda>cfg wt e d.
        case shape e of
          [n, c, h, w] \<Rightarrow>
            if c = channel_in cfg
            then Inr (zeros [n, channel_out cfg, h, w] (dtype e))
            else Inl RuntimeError
        | _ \<Rightarrow> Inl RuntimeError),
      mul_scalar = (\<lambda>t c. Inr (t\<lparr>elems := map (\<lambda>x. x * c) (elems t)\<rparr>)),
      to_dtype = (\<lambda>t d. Inr (t\<lparr>dtype := d\<rparr>)),
      cat = (\<lambda>ts axis.
        case ts of
          [a, b] \<Rightarrow>
            (case (shape a, shape b) of
               ([b1, f1, c1, d1], [b2, f2, c2, d2]) \<Rightarrow>
                 if axis = 2 \<and> b1 = b2 \<and> f1 = f2 \<and> d1 = d2
                 then Inr (zeros [b1, f1, c1 + c2, d1] (dtype a))
                 else Inl RuntimeError
             | _ \<Rightarrow> Inl RuntimeError)
        | _ \<Rightarrow> Inl RuntimeError)\<rparr>"

definition start :: "'n \<Rightarrow> (real, nat, 'n) world" where
  "start n = \<lparr>net = n, params = (\<lambda>_. 0), heap = [], log = []\<rparr>"

definition demo_condition :: "real tensor" where
  "demo_condition = zeros [1, 3, 2, 8, 8] Float32"

definition demo_drive_coeff :: "real tensor" where
  "demo_drive_coeff = zeros [1, 2, 4] Float32"

definition demo_face_parts :: "real tensor" where
  "demo_face_parts = zeros [1, 2, 3, 1024] Float32"

definition demo_emo :: "real tensor" where
  "demo_emo = zeros [1, 2, 5] Float32"

definition HMControlNet_default :: HMControlNet where
  "HMControlNet_default = projr (HMControlNet_init 1280 3 8 320 [128, 320, 640, 1280])"

definition HMControlNet2_default :: HMControlNet2 where
  "HMControlNet2_default = projr (HMControlNet2_init 1280 3 8 320 [128, 320, 640, 1280])"

definition HMV2ControlNet_default :: HMV2ControlNet where
  "HMV2ControlNet_default = projr (HMV2ControlNet_init 1280 3 4 320 [128, 640, 1280, 1280, 1280])"

definition HMV3ControlNet_default :: HMV3ControlNet where
  "HMV3ControlNet_default = projr (HMV3ControlNet_init 1280 3 4 320 [128, 640, 1280, 1280, 1280])"

definition HMV2ControlNet2_default :: HMV2ControlNet2 where
  "HMV2ControlNet2_default =
     projr (HMV2ControlNet2_init 1280 3 4 320 [128, 640, 1280, 1280, 1280])"

section \<open>Basic facts: the monad and decimal formatting\<close>

lemma bnd_InrE:
  assumes "bnd m f w = (Inr y, w')"
  obtains x w1 where "m w = (Inr x, w1)" and "f x w1 = (Inr y, w')"
  using assms by (auto simp: bnd_def split: prod.splits sum.splits)

lemma prim_eq:
  "prim opn args r0 w = (r, w') \<longleftrightarrow>
     r = r0 \<and> w' = w\<lparr>log := log w @ [Event opn args (err_of r0)]\<rparr>"
  by (auto simp: prim_def)

lemma ret_eq: "ret x w = (r, w') \<longleftrightarrow> r = Inr x \<and> w' = w"
  by (auto simp: ret_def)

lemma get_self_eq: "get_self w = (r, w') \<longleftrightarrow> r = Inr (net w) \<and> w' = w"
  by (auto simp: get_self_def)

lemma get_param_eq: "get_param nm w = (r, w') \<longleftrightarrow> r = Inr (params w nm) \<and> w' = w"
  by (auto simp: get_param_def)

lemma new_object_eq:
  "new_object t w = (r, w') \<longleftrightarrow> r = Inr (length (heap w)) \<and> w' = w\<lparr>heap := heap w @ [t]\<rparr>"
  by (auto simp: new_object_def)

lemma prim_Inr_eq:
  "prim opn args r0 w = (Inr x, w') \<longleftrightarrow>
     r0 = Inr x \<and> w' = w\<lparr>log := log w @ [Event opn args None]\<rparr>"
  by (auto simp: prim_def err_of_def)

lemmas hm_eq = prim_Inr_eq ret_eq get_self_eq get_param_eq new_object_eq

lemma of_char_digit: "d < 10 \<Longrightarrow> (of_char (char_of (48 + d :: nat)) :: nat) = 48 + d"
  by simp

lemma nat_of_string_snoc: "nat_of_string (s @ [c]) = 10 * nat_of_string s + (of_char c - 48)"
  by (simp add: nat_of_string_def)

lemma nat_of_string_of_nat: "nat_of_string (string_of_nat n) = n"
proof (induction n rule: string_of_nat.induct)
  case (1 n)
  show ?case
  proof (cases "n < 10")
    case True
    then show ?thesis by (subst string_of_nat.simps) (simp add: nat_of_string_def)
  next
    case False
    have "n mod 10 < 10" by simp
    then have d: "(of_char (char_of (48 + n mod 10 :: nat)) :: nat) = 48 + n mod 10"
      by (rule of_char_digit)
    from False 1 have "nat_of_string (string_of_nat (n div 10)) = n div 10" by simp
    with False d show ?thesis
      by (subst string_of_nat.simps) (simp add: nat_of_string_snoc)
  qed
qed

lemma string_of_nat_inj: "string_of_nat m = string_of_nat n \<Longrightarrow> m = n"
  by (metis nat_of_string_of_nat)

lemma string_of_nat_digits: "c \<in> set (string_of_nat n) \<Longrightarrow> c \<noteq> CHR ''-''"
proof (induction n rule: string_of_nat.induct)
  case (1 n)
  have dig: "\<And>d. d < 10 \<Longrightarrow> char_of (48 + d :: nat) \<noteq> CHR ''-''"
  proof
    fix d :: nat assume "d < 10" and "char_of (48 + d) = CHR ''-''"
    then have "(of_char (char_of (48 + d)) :: nat) = of_char CHR ''-''" by simp
    with \<open>d < 10\<close> show False by simp
  qed
  show ?case
  proof (cases "n < 10")
    case True
    with 1(2) dig[of n] show ?thesis by (subst (asm) string_of_nat.simps) simp
  next
    case False
    with 1 dig[of "n mod 10"] show ?thesis 
      by (subst (asm) (2) string_of_nat.simps) auto
  qed
qed

lemma string_of_nat_nonempty: "string_of_nat n \<noteq> []"
  by (subst string_of_nat.simps) simp

lemma string_of_nat_no_minus: "string_of_nat n \<noteq> CHR ''-'' # s"
  using string_of_nat_digits[of "CHR ''-''" n] by (metis list.set_intros(1))

lemma string_of_int_inj: "string_of_int i = string_of_int j \<Longrightarrow> i = j"
  unfolding string_of_int_def
  by (auto split: if_splits dest: string_of_nat_inj simp: string_of_nat_no_minus
      string_of_nat_no_minus[symmetric])

lemma char_of_48: "char_of (48::nat) = CHR ''0''"
  by code_simp

lemma string_of_nat_0: "string_of_nat 0 = ''0''"
  by (subst string_of_nat.simps) (simp add: char_of_48)

lemma string_of_int_zero: "string_of_int 0 = ''0''"
  by (simp add: string_of_int_def string_of_nat_0)

lemma string_of_int_0: "string_of_int i = ''0'' \<longleftrightarrow> i = 0"
proof
  assume "string_of_int i = ''0''"
  then have "string_of_int i = string_of_int 0" by (simp add: string_of_int_def string_of_nat_0)
  then show "i = 0" by (rule string_of_int_inj)
qed (simp add: string_of_int_def string_of_nat_0)

lemma string_of_int_0': "''0'' = string_of_int i \<longleftrightarrow> i = 0"
  using string_of_int_0[of i] by auto

subsection \<open>What a step that returns has done\<close>

lemma call_block_Inr:
  assumes "call_block fw idx block e d w = (Inr x, w1)"
  shows "sk_cross_attention_fwd fw block (params w (Blocks_down idx)) e d = Inr x
    \<and> w1 = w\<lparr>log := log w @ [Event (Call (Blocks_down idx)) [e, d] None]\<rparr>"
  using assms unfolding call_block_def
  by (auto elim!: bnd_InrE simp: hm_eq)

lemma call_conv2d_Inr:
  assumes "call_conv2d fw nm sel x w = (Inr y, w1)"
  shows "conv2d_fwd fw (sel (net w)) (params w nm) x = Inr y
    \<and> w1 = w\<lparr>log := log w @ [Event (Call nm) [x] None]\<rparr>"
  using assms unfolding call_conv2d_def
  by (auto elim!: bnd_InrE simp: hm_eq)

lemma rearrange_m_Inr:
  assumes "rearrange_m t p w = (Inr y, w1)"
  shows "rearrange t p = Inr y \<and> w1 = w\<lparr>log := log w @ [Event (Rearrange p) [t] None]\<rparr>"
  using assms unfolding rearrange_m_def by (auto simp: hm_eq)

lemma adapter_entry_Inr:
  assumes "adapter_entry fw nm sel k F e rd w = (Inr rd', w')"
  shows "\<exists>x t. conv2d_fwd fw (sel (net w)) (params w nm) e = Inr x
     \<and> rearrange x (Unflatten_frames F) = Inr t
     \<and> rd' = AList.update k (length (heap w)) rd
     \<and> heap w' = heap w @ [t] \<and> net w' = net w \<and> params w' = params w"
  using assms unfolding adapter_entry_def
  by (auto elim!: bnd_InrE dest!: call_conv2d_Inr rearrange_m_Inr simp: hm_eq)

lemma getitem_Inr:
  assumes "getitem d k w = (Inr r, w')"
  shows "map_of d k = Some r \<and> w' = w\<lparr>log := log w @ [Event (GetItem k) [] None]\<rparr>"
  using assms unfolding getitem_def by (auto simp: hm_eq split: option.splits)

lemma alias_entries_Inr:
  assumes "alias_entries rd w = (Inr rd', w')"
  shows "\<exists>r. map_of rd ''up3_0'' = Some r
     \<and> rd' = AList.update ''down3_3'' r (AList.update ''down3_2'' r rd)
     \<and> heap w' = heap w \<and> net w' = net w \<and> params w' = params w"
  using assms unfolding alias_entries_def
  by (auto elim!: bnd_InrE dest!: getitem_Inr simp: hm_eq update_conv')

subsection \<open>Running the model on concrete inputs\<close>

text \<open>
  Rewrite rules that execute a computation one operation at a time. The congruence
  rules \<open>lazy\<close> keep the simplifier from looking into a branch or a continuation
  before the result that selects it is known.
\<close>

lemma bnd_prim:
  "bnd (prim opn args r) f w =
     (case r of Inl e \<Rightarrow> (Inl e, w\<lparr>log := log w @ [Event opn args (Some e)]\<rparr>)
      | Inr x \<Rightarrow> f x (w\<lparr>log := log w @ [Event opn args None]\<rparr>))"
  by (simp add: bnd_def prim_def err_of_def split: sum.splits)

lemma bnd_ret: "bnd (ret x) f w = f x w"
  by (simp add: bnd_def ret_def)

lemma bnd_get_self: "bnd get_self f w = f (net w) w"
  by (simp add: bnd_def get_self_def)

lemma bnd_get_param: "bnd (get_param nm) f w = f (params w nm) w"
  by (simp add: bnd_def get_param_def)

lemma bnd_new_object:
  "bnd (new_object t) f w = f (length (heap w)) (w\<lparr>heap := heap w @ [t]\<rparr>)"
  by (simp add: bnd_def new_object_def)

lemma bnd_assoc: "bnd (bnd m f) g = bnd m (\<lambda>x. bnd (f x) g)"
  by (auto simp: bnd_def fun_eq_iff split: prod.splits sum.splits)

lemma bnd_ret_right: "bnd m ret = m"
  by (auto simp: bnd_def ret_def fun_eq_iff split: prod.splits sum.splits)

lemma ret_apply: "ret x w = (Inr x, w)"
  by (simp add: ret_def)

lemma prim_apply: "prim opn args r w = (r, w\<lparr>log := log w @ [Event opn args (err_of r)]\<rparr>)"
  by (simp add: prim_def)

lemma bnd_cong_weak: "m = m' \<Longrightarrow> bnd m f = bnd m' f"
  by simp

lemmas exec = bnd_prim bnd_ret bnd_get_self bnd_get_param bnd_new_object bnd_assoc

lemmas lazy = sum.case_cong_weak list.case_cong_weak option.case_cong_weak
  prod.case_cong_weak bnd_cong_weak

lemma string_of_nat_digits_eval:
  "string_of_nat 0 = ''0''" "string_of_nat (Suc 0) = ''1''" "string_of_nat 2 = ''2''"
  "string_of_nat 3 = ''3''" "string_of_nat 4 = ''4''" "string_of_nat 5 = ''5''"
  "string_of_nat (Suc (Suc 0)) = ''2''" "string_of_nat (Suc (Suc (Suc 0))) = ''3''"
  "string_of_nat (Suc (Suc (Suc (Suc 0)))) = ''4''"
  by code_simp+

lemmas run_defs = Conv2d_def Timesteps_def TimestepEmbedding_def make_blocks_def
  embed_condition_def rearrange_m_def call_conv2d_def call_timesteps_def
  call_timestep_embedding_def call_block_def py_mul_def dual_signal_def emo_signal_def
  adapter_entry_def alias_entries_def getitem_def up_idx_of_def
  unpack5_def floordiv_def shape_fw_def zeros_def start_def
  demo_condition_def demo_emo_def demo_drive_coeff_def demo_face_parts_def
  string_of_int_def ret_apply string_of_nat_digits_eval
  down_key_def down2_key_def up_v2_key_def up2_v2_key_def

lemma HMV3ControlNet_default_fields [simp]:
  "scale_factor HMV3ControlNet_default = 4"
  "hm_module.cross_attention_dim HMV3ControlNet_default = 320"
  "conv_in HMV3ControlNet_default = Conv2d 3 128 3 1 False"
  "blocks_down HMV3ControlNet_default = make_blocks 320 1024 [128, 640, 1280, 1280, 1280]"
  "conv_up2_down0 HMV3ControlNet_default = Conv2d 1280 320 1 0 False"
  "conv_up1_down1 HMV3ControlNet_default = Conv2d 1280 640 1 0 False"
  "emo_embedding HMV3ControlNet_default = Timesteps 320 True 0"
  "exp_embedding HMV3ControlNet_default = Timesteps 320 True 0"
  "HMV3ControlNet.exp_proj HMV3ControlNet_default = TimestepEmbedding 320 320"
  "HMV3ControlNet.face_proj HMV3ControlNet_default = TimestepEmbedding 1024 320"
  "HMV3ControlNet.emo_proj HMV3ControlNet_default = TimestepEmbedding 320 320"
  by (simp_all add: HMV3ControlNet_default_def HMV3ControlNet_init_def)

text \<open>The default \<open>HMV3ControlNet\<close> on the demo inputs, in either mode: eight entries.\<close>

lemma HMV3_default_emo_run:
  "fst (HMV3ControlNet_forward shape_fw demo_condition None None (Some demo_emo)
          (start HMV3ControlNet_default)) =
   Inr [(''up3_3'', 0), (''up3_2'', 1), (''down3_0'', 2), (''up3_1'', 3), (''down3_1'', 4),
        (''up3_0'', 5), (''down3_2'', 5), (''down3_3'', 5)]"
  by (simp add: HMV3ControlNet_forward_def HMV3_drive_def exec run_defs cong: lazy)


lemma fst_InrD: "fst p = Inr x \<Longrightarrow> \<exists>w'. p = (Inr x, w')"
  by (cases p) simp

subsection \<open>The other default networks on the demo inputs\<close>

lemma HMControlNet_default_fields [simp]:
  "scale_factor HMControlNet_default = 8"
  "hm_module.cross_attention_dim HMControlNet_default = 320"
  "conv_in HMControlNet_default = Conv2d 3 128 3 1 False"
  "blocks_down HMControlNet_default = make_blocks 320 64 [128, 320, 640, 1280]"
  "exp_embedding HMControlNet_default = Timesteps 320 True 0"
  "HMControlNet.exp_proj HMControlNet_default = TimestepEmbedding 320 320"
  "HMControlNet.face_proj HMControlNet_default = TimestepEmbedding 1024 320"
  by (simp_all add: HMControlNet_default_def HMControlNet_init_def)

lemma HMControlNet2_default_fields [simp]:
  "scale_factor HMControlNet2_default = 8"
  "hm_module.cross_attention_dim HMControlNet2_default = 320"
  "conv_in HMControlNet2_default = Conv2d 3 128 3 1 False"
  "blocks_down HMControlNet2_default = make_blocks 320 1024 [128, 320, 640, 1280]"
  "exp_embedding HMControlNet2_default = Timesteps 320 True 0"
  "HMControlNet2.emo_proj HMControlNet2_default = TimestepEmbedding 320 320"
  by (simp_all add: HMControlNet2_default_def HMControlNet2_init_def)

lemma HMV2ControlNet_default_fields [simp]:
  "scale_factor HMV2ControlNet_default = 4"
  "hm_module.cross_attention_dim HMV2ControlNet_default = 320"
  "conv_in HMV2ControlNet_default = Conv2d 3 128 3 1 False"
  "blocks_down HMV2ControlNet_default = make_blocks 320 1024 [128, 640, 1280, 1280, 1280]"
  "exp_embedding HMV2ControlNet_default = Timesteps 320 True 0"
  "HMV2ControlNet.exp_proj HMV2ControlNet_default = TimestepEmbedding 320 320"
  "HMV2ControlNet.face_proj HMV2ControlNet_default = TimestepEmbedding 1024 320"
  by (simp_all add: HMV2ControlNet_default_def HMV2ControlNet_init_def)

lemma HMV2ControlNet2_default_fields [simp]:
  "scale_factor HMV2ControlNet2_default = 4"
  "hm_module.cross_attention_dim HMV2ControlNet2_default = 320"
  "conv_in HMV2ControlNet2_default = Conv2d 3 128 3 1 False"
  "blocks_down HMV2ControlNet2_default = make_blocks 320 1024 [128, 640, 1280, 1280, 1280]"
  "exp_embedding HMV2ControlNet2_default = Timesteps 320 True 0"
  "HMV2ControlNet2.emo_proj HMV2ControlNet2_default = TimestepEmbedding 320 320"
  by (simp_all add: HMV2ControlNet2_default_def HMV2ControlNet2_init_def)


lemma HMControlNet2_default_run:
  "fst (HMControlNet2_forward shape_fw demo_condition demo_emo
          (start HMControlNet2_default)) =
   Inr [(''down2_0'', 0), (''down2_1'', 1), (''down2_2'', 2)]"
  by (simp add: HMControlNet2_forward_def exec run_defs cong: lazy)

lemma HMV2ControlNet_default_run:
  "fst (HMV2ControlNet_forward shape_fw demo_condition demo_drive_coeff demo_face_parts
          (start HMV2ControlNet_default)) =
   Inr [(''up_v2_3'', 0), (''up_v2_2'', 1), (''up_v2_1'', 2), (''up_v2_0'', 3)]"
  by (simp add: HMV2ControlNet_forward_def exec run_defs cong: lazy)

lemma HMV2ControlNet2_default_run:
  "fst (HMV2ControlNet2_forward shape_fw demo_condition demo_emo
          (start HMV2ControlNet2_default)) =
   Inr [(''up2_v2_3'', 0), (''up2_v2_2'', 1), (''up2_v2_1'', 2), (''up2_v2_0'', 3)]"
  by (simp add: HMV2ControlNet2_forward_def exec run_defs cong: lazy)

section \<open>The log of a run\<close>

lemma all_events_ret: "all_events P (ret x)"
  by (simp add: all_events_def ret_def)

lemma all_events_get_self: "all_events P get_self"
  by (simp add: all_events_def get_self_def)

lemma all_events_get_param: "all_events P (get_param nm)"
  by (simp add: all_events_def get_param_def)

lemma all_events_new_object: "all_events P (new_object t)"
  by (simp add: all_events_def new_object_def)

lemma all_events_prim: "(\<And>e. P (Event opn args e)) \<Longrightarrow> all_events P (prim opn args r)"
  by (simp add: all_events_def prim_def)

lemma all_events_bnd:
  assumes "all_events P m" and "\<And>x. yields m x \<Longrightarrow> all_events P (f x)"
  shows "all_events P (bnd m f)"
  unfolding all_events_def
proof
  fix w
  from assms(1) obtain evs1 where
    l1: "log (snd (m w)) = log w @ evs1" and p1: "list_all P evs1"
    unfolding all_events_def by blast
  show "\<exists>evs. log (snd (bnd m f w)) = log w @ evs \<and> list_all P evs"
  proof (cases "m w")
    case (Pair r w1)
    show ?thesis
    proof (cases r)
      case (Inl e)
      with Pair l1 p1 show ?thesis by (auto simp: bnd_def)
    next
      case (Inr x)
      with Pair have "yields m x" by (auto simp: yields_def)
      from assms(2)[OF this] obtain evs2 where
        "log (snd (f x w1)) = log w1 @ evs2" "list_all P evs2"
        unfolding all_events_def by blast
      with Pair Inr l1 p1 show ?thesis by (auto simp: bnd_def)
    qed
  qed
qed


lemma all_events_case_prod: "(\<And>a b. all_events P (f a b)) \<Longrightarrow> all_events P (case_prod f p)"
  by (cases p) simp

lemma all_events_if: "all_events P a \<Longrightarrow> all_events P b \<Longrightarrow> all_events P (if c then a else b)"
  by simp

lemma all_events_case_option:
  "all_events P a \<Longrightarrow> (\<And>x. all_events P (f x)) \<Longrightarrow> all_events P (case_option a f v)"
  by (cases v) simp_all

lemmas all_events_intros = all_events_ret all_events_get_self all_events_get_param
  all_events_new_object all_events_bnd all_events_case_prod all_events_if
  all_events_case_option

lemma all_events_D:
  assumes "all_events P m"
  shows "log (snd (m w)) = log w @ events_of m w" and "list_all P (events_of m w)"
  using assms unfolding all_events_def events_of_def by (metis append_eq_conv_conj)+

text \<open>The operations of the helpers.\<close>

lemma all_events_helpers:
  "(\<And>e. P (Event (Rearrange p) [t] e)) \<Longrightarrow> all_events P (rearrange_m t p)"
  "(\<And>a e. P (Event (Mul c) a e)) \<Longrightarrow> all_events P (py_mul fw v c)"
  "(\<And>e. P (Event (GetItem k) [] e)) \<Longrightarrow> all_events P (getitem d k)"
  "(\<And>e. P (Event (Call nm) [x] e)) \<Longrightarrow> all_events P (call_conv2d fw nm sel x)"
  "(\<And>e. P (Event (Call nm) [x] e)) \<Longrightarrow> all_events P (call_timesteps fw nm sel' x)"
  "(\<And>e. P (Event (Call nm) [x] e)) \<Longrightarrow> all_events P (call_timestep_embedding fw nm sel'' x)"
  "(\<And>e. P (Event (Call (Blocks_down idx)) [emb, drv] e)) \<Longrightarrow> all_events P (call_block fw idx block emb drv)"
  unfolding rearrange_m_def py_mul_def getitem_def call_conv2d_def call_timesteps_def
    call_timestep_embedding_def call_block_def
  by (auto intro!: all_events_intros all_events_prim split: option.splits)












lemma events_of_bnd_Inl:
  assumes "m w = (Inl e, w1)"
  shows "events_of (bnd m f) w = events_of m w" and "fst (bnd m f w) = Inl e"
  using assms by (simp_all add: events_of_def bnd_def)

lemma events_of_bnd_Inr:
  assumes "m w = (Inr x, w1)" and "all_events P m" and "all_events Q (f x)"
  shows "events_of (bnd m f) w = events_of m w @ events_of (f x) w1"
    and "fst (bnd m f w) = fst (f x w1)"
proof -
  define E1 where "E1 = events_of m w"
  define E2 where "E2 = events_of (f x) w1"
  from all_events_D(1)[OF assms(2), of w] assms(1)
  have l1: "log w1 = log w @ E1" by (simp add: E1_def)
  from all_events_D(1)[OF assms(3), of w1]
  have l2: "log (snd (f x w1)) = log w1 @ E2" by (simp add: E2_def)
  from assms(1) have b: "bnd m f w = f x w1" by (simp add: bnd_def)
  have "events_of (bnd m f) w = drop (length (log w)) (log (snd (f x w1)))"
    by (simp add: events_of_def b)
  also have "\<dots> = drop (length (log w)) (log w @ (E1 @ E2))"
    by (simp only: l1 l2 append_assoc)
  also have "\<dots> = E1 @ E2" by simp
  finally show "events_of (bnd m f) w = events_of m w @ events_of (f x) w1"
    by (simp only: E1_def E2_def)
  from b show "fst (bnd m f w) = fst (f x w1)" by simp
qed








lemma events_of_py_mul: "\<exists>a e. events_of (py_mul fw v c) w = [Event (Mul c) a e]"
  by (cases v) (simp_all add: py_mul_def prim_def events_of_def)

lemma py_mul_first:
  assumes "\<And>s. all_events (\<lambda>_. True) (k s)"
  shows "Mul c \<in> ev_op ` set (events_of (bnd (py_mul fw v c) k) w)"
proof -
  obtain a e where ev: "events_of (py_mul fw v c) w = [Event (Mul c) a e]"
    using events_of_py_mul by blast
  have g: "all_events (\<lambda>_. True) (py_mul fw v c)"
    by (intro all_events_helpers) simp
  show ?thesis
  proof (cases "py_mul fw v c w")
    case (Pair r w1)
    show ?thesis
    proof (cases r)
      case (Inl err)
      with Pair have "py_mul fw v c w = (Inl err, w1)" by simp
      from events_of_bnd_Inl(1)[of "py_mul fw v c" w err w1 k, OF this] ev
      show ?thesis by simp
    next
      case (Inr s)
      with Pair have "py_mul fw v c w = (Inr s, w1)" by simp
      from events_of_bnd_Inr(1)[of "py_mul fw v c" w s w1 "\<lambda>_. True" "\<lambda>_. True" k,
          OF this g assms] ev
      show ?thesis by simp
    qed
  qed
qed

lemma dual_signal_first:
  "Mul 500 \<in> ev_op ` set (events_of (dual_signal fw ep fp bs F e dc fps) w)"
  unfolding dual_signal_def
  by (rule py_mul_first)
     (intro all_events_intros all_events_helpers all_events_prim; simp)

lemma emo_signal_first:
  "Mul 20 \<in> ev_op ` set (events_of (emo_signal fw enc enc_of ep bs F e emo) w)"
  unfolding emo_signal_def
  by (rule py_mul_first)
     (intro all_events_intros all_events_helpers all_events_prim; simp)



section \<open>The aliased entries of \<open>HMV3ControlNet\<close>\<close>

lemma up3_key_0: "''up3_'' @ string_of_int i = ''up3_0'' \<longleftrightarrow> i = 0"
  by (simp add: string_of_int_0)

lemma HMV3_loop_alias:
  assumes "HMV3_loop fw F blocks idx e d rd w = (Inr rd', w')"
    and "\<forall>r. map_of rd ''up3_0'' = Some r \<longrightarrow>
           map_of rd ''down3_2'' = Some r \<and> map_of rd ''down3_3'' = Some r \<and> r < length (heap w)"
  shows "\<forall>r. map_of rd' ''up3_0'' = Some r \<longrightarrow>
           map_of rd' ''down3_2'' = Some r \<and> map_of rd' ''down3_3'' = Some r \<and> r < length (heap w')"
  using assms
proof (induction blocks arbitrary: idx e rd w)
  case Nil
  then show ?case by (simp add: hm_eq)
next
  case (Cons block rest)
  from Cons.prems(1) obtain e1 w1 t rd1 w2 rd2 w3 rd3 w4 rd4 w5 where
    blk: "call_block fw idx block e d w = (Inr e1, w1)"
    and rea: "rearrange_m e1 (Unflatten_frames F) w1 = (Inr t, w2)"
    and rd1: "rd1 = AList.update (''up3_'' @ string_of_int (up_idx_of (net w1) idx)) (length (heap w2)) rd"
    and a2: "(if up_idx_of (net w1) idx = 2
          then adapter_entry fw Conv_up2_down0 conv_up2_down0 ''down3_0'' F e1 rd1
          else ret rd1) (w2\<lparr>heap := heap w2 @ [t]\<rparr>) = (Inr rd2, w3)"
    and a1: "(if up_idx_of (net w1) idx = 1
          then adapter_entry fw Conv_up1_down1 conv_up1_down1 ''down3_1'' F e1 rd2
          else ret rd2) w3 = (Inr rd3, w4)"
    and a0: "(if up_idx_of (net w1) idx = 0 then alias_entries rd3 else ret rd3) w4 = (Inr rd4, w5)"
    and rest: "HMV3_loop fw F rest (Suc idx) e1 d rd4 w5 = (Inr rd', w')"
    by (auto elim!: bnd_InrE simp: hm_eq)
  from blk have h1: "heap w1 = heap w" by (auto dest: call_block_Inr)
  from rea have h2: "heap w2 = heap w1" by (auto dest: rearrange_m_Inr)
  let ?u = "up_idx_of (net w1) idx"
  let ?Q = "\<lambda>rd n. \<forall>r. map_of rd ''up3_0'' = Some r \<longrightarrow>
           map_of rd ''down3_2'' = Some r \<and> map_of rd ''down3_3'' = Some r \<and> r < n"
  have inv: "?Q rd4 (length (heap w5))"
  proof (cases "?u = 0")
    case True
    with a2 a1 have "rd3 = rd1" "heap w4 = heap w2 @ [t]" by (auto simp: hm_eq)
    moreover from a0 True obtain r where "map_of rd3 ''up3_0'' = Some r"
      "rd4 = AList.update ''down3_3'' r (AList.update ''down3_2'' r rd3)" "heap w5 = heap w4"
      by (auto dest!: alias_entries_Inr)
    ultimately show ?thesis using True rd1 by (auto simp: update_conv' string_of_int_zero)
  next
    case False
    from a0 False have e4: "rd4 = rd3" "heap w5 = heap w4" by (auto simp: hm_eq)
    from a2 have q2: "map_of rd2 ''up3_0'' = map_of rd1 ''up3_0''"
      "map_of rd2 ''down3_2'' = map_of rd1 ''down3_2''"
      "map_of rd2 ''down3_3'' = map_of rd1 ''down3_3''"
      "length (heap w2) \<le> length (heap w3)"
      by (auto simp: hm_eq update_conv' split: if_splits dest!: adapter_entry_Inr)
    from a1 have q3: "map_of rd3 ''up3_0'' = map_of rd2 ''up3_0''"
      "map_of rd3 ''down3_2'' = map_of rd2 ''down3_2''"
      "map_of rd3 ''down3_3'' = map_of rd2 ''down3_3''"
      "length (heap w3) \<le> length (heap w4)"
      by (auto simp: hm_eq update_conv' split: if_splits dest!: adapter_entry_Inr)
    from False rd1 have q1: "map_of rd1 ''up3_0'' = map_of rd ''up3_0''"
      "map_of rd1 ''down3_2'' = map_of rd ''down3_2''"
      "map_of rd1 ''down3_3'' = map_of rd ''down3_3''"
      by (auto simp: update_conv' string_of_int_0 string_of_int_0')
    have k0: "map_of rd4 ''up3_0'' = map_of rd ''up3_0''"
      and k2: "map_of rd4 ''down3_2'' = map_of rd ''down3_2''"
      and k3: "map_of rd4 ''down3_3'' = map_of rd ''down3_3''"
      using q1 q2 q3 e4 by simp_all
    have hp: "length (heap w) \<le> length (heap w5)"
      using q2(4) q3(4) e4(2) h1 h2 by simp
    show ?thesis
    proof (intro allI impI)
      fix r assume "map_of rd4 ''up3_0'' = Some r"
      then have "map_of rd ''up3_0'' = Some r" by (simp only: k0)
      with Cons.prems(2) have "map_of rd ''down3_2'' = Some r \<and> map_of rd ''down3_3'' = Some r
        \<and> r < length (heap w)" by blast
      with hp show "map_of rd4 ''down3_2'' = Some r \<and> map_of rd4 ''down3_3'' = Some r
        \<and> r < length (heap w5)" by (simp only: k2 k3) simp
    qed
  qed
  from Cons.IH[OF rest inv] show ?case .
qed

text \<open>
  Claim C2. In every call of \<open>HMV3ControlNet.forward\<close> that returns a dictionary with the
  key \<open>up3_0\<close>, the entries \<open>down3_2\<close> and \<open>down3_3\<close> hold the very reference that
  \<open>up3_0\<close> holds: one tensor object of the store under three keys, not a copy.
\<close>

theorem HMV3_down3_aliases_up3_0:
  assumes "HMV3ControlNet_forward fw condition drive_coeff face_parts emo w = (Inr ret_dict, w')"
    and "map_of ret_dict ''up3_0'' = Some r"
  shows "map_of ret_dict ''down3_2'' = Some r \<and> map_of ret_dict ''down3_3'' = Some r
    \<and> r < length (heap w')"
proof -
  from assms(1) obtain F bl e d w1 where
    "HMV3_loop fw F bl 0 e d [] w1 = (Inr ret_dict, w')"
    unfolding HMV3ControlNet_forward_def
    by (auto elim!: bnd_InrE simp: hm_eq split: prod.splits)
  from HMV3_loop_alias[OF this] assms(2) show ?thesis by simp
qed

theorem HMV3_down3_aliases_up3_0_witness:
  "\<exists>ret_dict w'.
     HMV3ControlNet_forward shape_fw demo_condition None None (Some demo_emo)
       (start HMV3ControlNet_default) = (Inr ret_dict, w')
     \<and> map_of ret_dict ''up3_0'' = Some 5
     \<and> map_of ret_dict ''down3_2'' = Some 5 \<and> map_of ret_dict ''down3_3'' = Some 5
     \<and> 5 < length (heap w')"
proof -
  let ?d = "[(''up3_3'', 0), (''up3_2'', 1), (''down3_0'', 2), (''up3_1'', 3), (''down3_1'', 4),
        (''up3_0'', 5), (''down3_2'', 5), (''down3_3'', 5::nat)]"
  from fst_InrD[OF HMV3_default_emo_run] obtain w' where
    run: "HMV3ControlNet_forward shape_fw demo_condition None None (Some demo_emo)
       (start HMV3ControlNet_default) = (Inr ?d, w')" by blast
  have k: "map_of ?d ''up3_0'' = Some 5" by simp
  from HMV3_down3_aliases_up3_0[OF run k] run k show ?thesis by blast
qed

section \<open>The two branches of \<open>HMV3ControlNet\<close>\<close>







section \<open>Scaling comes before the sinusoidal encoder\<close>







section \<open>A forward call reads the network and does not change it\<close>

lemma preserved_refl: "preserved w w"
  by (simp add: preserved_def)

lemma preserved_trans: "preserved w w1 \<Longrightarrow> preserved w1 w2 \<Longrightarrow> preserved w w2"
  by (auto simp: preserved_def)

lemma reads_only_ret: "reads_only (ret x)"
  by (simp add: reads_only_def ret_def preserved_refl)

lemma reads_only_prim: "reads_only (prim opn args r)"
  by (simp add: reads_only_def prim_def preserved_def)

lemma reads_only_get_self: "reads_only get_self"
  by (simp add: reads_only_def get_self_def preserved_refl)

lemma reads_only_get_param: "reads_only (get_param nm)"
  by (simp add: reads_only_def get_param_def preserved_refl)

lemma reads_only_new_object: "reads_only (new_object t)"
  by (simp add: reads_only_def new_object_def preserved_def)

lemma reads_only_bnd:
  assumes "reads_only m" and "\<And>x. reads_only (f x)"
  shows "reads_only (bnd m f)"
  unfolding reads_only_def
proof
  fix w
  from assms(1) have p1: "preserved w (snd (m w))" by (simp add: reads_only_def)
  show "preserved w (snd (bnd m f w))"
  proof (cases "m w")
    case (Pair r w1)
    show ?thesis
    proof (cases r)
      case (Inl e)
      with Pair p1 show ?thesis by (simp add: bnd_def)
    next
      case (Inr x)
      from assms(2)[of x] have "preserved w1 (snd (f x w1))" by (simp add: reads_only_def)
      with Pair Inr p1 show ?thesis by (auto simp: bnd_def intro: preserved_trans)
    qed
  qed
qed

lemma reads_only_case_prod: "(\<And>a b. reads_only (f a b)) \<Longrightarrow> reads_only (case_prod f p)"
  by (cases p) simp

lemma reads_only_if: "reads_only a \<Longrightarrow> reads_only b \<Longrightarrow> reads_only (if c then a else b)"
  by simp

lemma reads_only_case_option:
  "reads_only a \<Longrightarrow> (\<And>x. reads_only (f x)) \<Longrightarrow> reads_only (case_option a f v)"
  by (cases v) simp_all

lemmas reads_only_intros = reads_only_ret reads_only_prim reads_only_get_self
  reads_only_get_param reads_only_new_object reads_only_bnd reads_only_case_prod
  reads_only_if reads_only_case_option

lemma reads_only_helpers:
  "reads_only (rearrange_m t p)"
  "reads_only (py_mul fw v c)"
  "reads_only (getitem d k)"
  "reads_only (call_conv2d fw nm sel x)"
  "reads_only (call_timesteps fw nm sel' x)"
  "reads_only (call_timestep_embedding fw nm sel'' x)"
  "reads_only (call_block fw idx block e drv)"
  unfolding rearrange_m_def py_mul_def getitem_def call_conv2d_def call_timesteps_def
    call_timestep_embedding_def call_block_def
  by (intro reads_only_intros)+

lemma reads_only_embed_condition: "reads_only (embed_condition fw condition)"
  unfolding embed_condition_def
  by (intro reads_only_intros reads_only_helpers)

lemma reads_only_dual_signal: "reads_only (dual_signal fw ep fp bs F e dc fps)"
  unfolding dual_signal_def
  by (intro reads_only_intros reads_only_helpers)

lemma reads_only_emo_signal: "reads_only (emo_signal fw enc enc_of ep bs F e emo)"
  unfolding emo_signal_def
  by (intro reads_only_intros reads_only_helpers)

lemma reads_only_blocks_loop: "reads_only (blocks_loop fw key_of F blocks idx e d rd)"
  by (induction blocks arbitrary: idx e rd)
     (simp_all, (intro reads_only_intros reads_only_helpers | assumption)+)

lemma reads_only_adapter_entry: "reads_only (adapter_entry fw nm sel k F e rd)"
  unfolding adapter_entry_def
  by (intro reads_only_intros reads_only_helpers)

lemma reads_only_alias_entries: "reads_only (alias_entries rd)"
  unfolding alias_entries_def
  by (intro reads_only_intros reads_only_helpers)

lemma reads_only_HMV3_loop: "reads_only (HMV3_loop fw F blocks idx e d rd)"
  by (induction blocks arbitrary: idx e rd)
     (simp_all, (intro reads_only_intros reads_only_helpers reads_only_adapter_entry
        reads_only_alias_entries | assumption)+)

lemma reads_only_HMV3_drive: "reads_only (HMV3_drive fw bs F e dc fp emo)"
  unfolding HMV3_drive_def
  by (intro reads_only_intros reads_only_dual_signal reads_only_emo_signal)

text \<open>
  Claim C8. For every variant, a forward call leaves the network object (all its fields),
  the learned weights of every sub-module and the tensor objects that existed before the
  call as they were, whether it returns or raises: it only reads them. The sub-modules
  are functions of their configuration, their weights and their inputs.
\<close>

theorem forward_reads_only:
  "reads_only (HMControlNet_forward fw condition drive_coeff face_parts)
   \<and> reads_only (HMControlNet2_forward fw condition emo)
   \<and> reads_only (HMV2ControlNet_forward fw condition drive_coeff face_parts)
   \<and> reads_only (HMV3ControlNet_forward fw condition drive_coeff' face_parts' emo')
   \<and> reads_only (HMV2ControlNet2_forward fw condition emo)"
  unfolding HMControlNet_forward_def HMControlNet2_forward_def HMV2ControlNet_forward_def
    HMV3ControlNet_forward_def HMV2ControlNet2_forward_def
  by (intro conjI reads_only_intros reads_only_embed_condition reads_only_dual_signal
      reads_only_emo_signal reads_only_blocks_loop reads_only_HMV3_loop reads_only_HMV3_drive)

section \<open>Exceptions pass through a forward call unhandled\<close>

lemma unhandled_ret: "unhandled (ret x)"
  by (simp add: unhandled_def ret_def propagates_def)

lemma unhandled_prim: "unhandled (prim opn args r)"
  by (cases r) (simp_all add: unhandled_def prim_def propagates_def err_of_def)

lemma unhandled_get_self: "unhandled get_self"
  by (simp add: unhandled_def get_self_def propagates_def)

lemma unhandled_get_param: "unhandled (get_param nm)"
  by (simp add: unhandled_def get_param_def propagates_def)

lemma unhandled_new_object: "unhandled (new_object t)"
  by (simp add: unhandled_def new_object_def propagates_def)

lemma propagates_append:
  assumes "propagates (Inr x) evs1" and "propagates r evs2"
  shows "propagates r (evs1 @ evs2)"
proof (cases r)
  case (Inl e)
  with assms(2) have ne: "evs2 \<noteq> []" by (simp add: propagates_def)
  then have "butlast (evs1 @ evs2) = evs1 @ butlast evs2" by (simp add: butlast_append)
  with assms Inl ne show ?thesis by (simp add: propagates_def)
next
  case (Inr y)
  with assms show ?thesis by (simp add: propagates_def)
qed

lemma unhandled_bnd:
  assumes "unhandled m" and "\<And>x. unhandled (f x)"
  shows "unhandled (bnd m f)"
  unfolding unhandled_def
proof
  fix w
  from assms(1) obtain evs1 where
    l1: "log (snd (m w)) = log w @ evs1" and p1: "propagates (fst (m w)) evs1"
    unfolding unhandled_def by blast
  show "\<exists>evs. log (snd (bnd m f w)) = log w @ evs \<and> propagates (fst (bnd m f w)) evs"
  proof (cases "m w")
    case (Pair r w1)
    show ?thesis
    proof (cases r)
      case (Inl e)
      with Pair l1 p1 show ?thesis by (auto simp: bnd_def propagates_def)
    next
      case (Inr x)
      from assms(2)[of x] obtain evs2 where
        l2: "log (snd (f x w1)) = log w1 @ evs2" and p2: "propagates (fst (f x w1)) evs2"
        unfolding unhandled_def by blast
      from Pair Inr p1 have "propagates (Inr x) evs1" by simp
      from propagates_append[OF this p2] have "propagates (fst (f x w1)) (evs1 @ evs2)" .
      moreover from Pair l1 l2 have "log (snd (f x w1)) = log w @ evs1 @ evs2" by simp
      ultimately show ?thesis using Pair Inr by (auto simp: bnd_def)
    qed
  qed
qed

lemma unhandled_case_prod: "(\<And>a b. unhandled (f a b)) \<Longrightarrow> unhandled (case_prod f p)"
  by (cases p) simp

lemma unhandled_if: "unhandled a \<Longrightarrow> unhandled b \<Longrightarrow> unhandled (if c then a else b)"
  by simp

lemma unhandled_case_option:
  "unhandled a \<Longrightarrow> (\<And>x. unhandled (f x)) \<Longrightarrow> unhandled (case_option a f v)"
  by (cases v) simp_all

lemmas unhandled_intros = unhandled_ret unhandled_prim unhandled_get_self
  unhandled_get_param unhandled_new_object unhandled_bnd unhandled_case_prod
  unhandled_if unhandled_case_option

lemma unhandled_helpers:
  "unhandled (rearrange_m t p)"
  "unhandled (py_mul fw v c)"
  "unhandled (getitem d k)"
  "unhandled (call_conv2d fw nm sel x)"
  "unhandled (call_timesteps fw nm sel' x)"
  "unhandled (call_timestep_embedding fw nm sel'' x)"
  "unhandled (call_block fw idx block e drv)"
  unfolding rearrange_m_def py_mul_def getitem_def call_conv2d_def call_timesteps_def
    call_timestep_embedding_def call_block_def
  by (intro unhandled_intros)+

lemma unhandled_embed_condition: "unhandled (embed_condition fw condition)"
  unfolding embed_condition_def
  by (intro unhandled_intros unhandled_helpers)

lemma unhandled_dual_signal: "unhandled (dual_signal fw ep fp bs F e dc fps)"
  unfolding dual_signal_def
  by (intro unhandled_intros unhandled_helpers)

lemma unhandled_emo_signal: "unhandled (emo_signal fw enc enc_of ep bs F e emo)"
  unfolding emo_signal_def
  by (intro unhandled_intros unhandled_helpers)

lemma unhandled_blocks_loop: "unhandled (blocks_loop fw key_of F blocks idx e d rd)"
  by (induction blocks arbitrary: idx e rd)
     (simp_all, (intro unhandled_intros unhandled_helpers | assumption)+)

lemma unhandled_adapter_entry: "unhandled (adapter_entry fw nm sel k F e rd)"
  unfolding adapter_entry_def
  by (intro unhandled_intros unhandled_helpers)

lemma unhandled_alias_entries: "unhandled (alias_entries rd)"
  unfolding alias_entries_def
  by (intro unhandled_intros unhandled_helpers)

lemma unhandled_HMV3_loop: "unhandled (HMV3_loop fw F blocks idx e d rd)"
  by (induction blocks arbitrary: idx e rd)
     (simp_all, (intro unhandled_intros unhandled_helpers unhandled_adapter_entry
        unhandled_alias_entries | assumption)+)

lemma unhandled_HMV3_drive: "unhandled (HMV3_drive fw bs F e dc fp emo)"
  unfolding HMV3_drive_def
  by (intro unhandled_intros unhandled_dual_signal unhandled_emo_signal)

text \<open>
  Claim C9. No forward method validates its input, recovers from an error, retries or
  raises an error of its own: a call either returns the dictionary, and then every
  operation it performed returned, or its result is the exception of the last operation
  it performed, every operation before that one returned and none was performed after it.
\<close>

theorem forward_exceptions_unhandled:
  "unhandled (HMControlNet_forward fw condition drive_coeff face_parts)
   \<and> unhandled (HMControlNet2_forward fw condition emo)
   \<and> unhandled (HMV2ControlNet_forward fw condition drive_coeff face_parts)
   \<and> unhandled (HMV3ControlNet_forward fw condition drive_coeff' face_parts' emo')
   \<and> unhandled (HMV2ControlNet2_forward fw condition emo)"
  unfolding HMControlNet_forward_def HMControlNet2_forward_def HMV2ControlNet_forward_def
    HMV3ControlNet_forward_def HMV2ControlNet2_forward_def
  by (intro conjI unhandled_intros unhandled_embed_condition unhandled_dual_signal
      unhandled_emo_signal unhandled_blocks_loop unhandled_HMV3_loop unhandled_HMV3_drive)

section \<open>\<open>HMV3ControlNet\<close> without its emotion embedding\<close>

text \<open>
  Claim C10. When \<open>drive_coeff\<close> or \<open>face_parts\<close> is \<open>None\<close>,
  \<open>HMV3ControlNet.forward\<close> takes the emotion branch even if the other one is given;
  with \<open>emo_embedding = None\<close> the call then raises: once the condition is embedded, the
  next operation is \<open>emo_embedding * 20.\<close> on \<open>None\<close>, a \<open>TypeError\<close>, and nothing
  reports the missing dual-signal input.
\<close>

theorem HMV3_missing_signal_TypeError:
  assumes "drive_coeff = None \<or> face_parts = None"
  shows "HMV3ControlNet_forward fw condition drive_coeff face_parts None w =
     (case embed_condition fw condition w of
        (Inl e, w1) \<Rightarrow> (Inl e, w1)
      | (Inr x, w1) \<Rightarrow>
          (Inl TypeError, w1\<lparr>log := log w1 @ [Event (Mul 20) [] (Some TypeError)]\<rparr>))
     \<and> isl (fst (HMV3ControlNet_forward fw condition drive_coeff face_parts None w))"
proof -
  have drv: "HMV3_drive fw bs F e drive_coeff face_parts None w1 =
      (Inl TypeError, w1\<lparr>log := log w1 @ [Event (Mul 20) [] (Some TypeError)]\<rparr>)"
    for bs F e and w1 :: "('a, 'b, HMV3ControlNet) world"
    using assms
    by (auto simp: HMV3_drive_def emo_signal_def py_mul_def bnd_def prim_def err_of_def
        split: option.splits)
  show ?thesis
    unfolding HMV3ControlNet_forward_def
    by (auto simp: bnd_def drv split: prod.splits sum.splits)
qed

theorem HMV3_missing_signal_TypeError_witness:
  "fst (HMV3ControlNet_forward shape_fw demo_condition (Some demo_drive_coeff) None None
          (start HMV3ControlNet_default)) = Inl TypeError
   \<and> ev_op (last (log (snd (HMV3ControlNet_forward shape_fw demo_condition
          (Some demo_drive_coeff) None None (start HMV3ControlNet_default))))) = Mul 20"
proof -
  have e: "isl (fst (embed_condition shape_fw demo_condition (start HMV3ControlNet_default))) = False"
    using bnd_ret_right[of "embed_condition shape_fw demo_condition"]
    by (simp add: exec run_defs cong: lazy)
  have "Some demo_drive_coeff = None \<or> (None :: real tensor option) = None" by simp
  from HMV3_missing_signal_TypeError[OF this, of shape_fw demo_condition
      "start HMV3ControlNet_default"] e
  show ?thesis by (auto split: prod.splits sum.splits)
qed

section \<open>\<open>HMControlNet2\<close> against \<open>HMControlNet\<close>\<close>

lemma make_blocks_hidden:
  "make_blocks cad 1024 boc =
     map (\<lambda>b. b\<lparr>num_positional_embeddings_hidden := 1024\<rparr>) (make_blocks cad 64 boc)"
  by (simp add: make_blocks_def)

lemma make_blocks_64: "b \<in> set (make_blocks cad 64 boc) \<Longrightarrow> num_positional_embeddings_hidden b = 64"
  by (auto simp: make_blocks_def)

text \<open>
  The claim that the two constructors configure their fusion blocks identically fails on
  the default arguments: \<open>num_positional_embeddings_hidden\<close> is 64 in every block of
  \<open>HMControlNet\<close> and 1024 in every block of \<open>HMControlNet2\<close>.
\<close>

theorem HMControlNet2_blocks_differ:
  "map num_positional_embeddings_hidden
       (blocks_down (projr (HMControlNet_init 1280 3 8 320 [128, 320, 640, 1280]))) = [64, 64, 64]
   \<and> map num_positional_embeddings_hidden
       (blocks_down (projr (HMControlNet2_init 1280 3 8 320 [128, 320, 640, 1280])))
     = [1024, 1024, 1024]
   \<and> blocks_down (projr (HMControlNet2_init 1280 3 8 320 [128, 320, 640, 1280]))
     \<noteq> blocks_down (projr (HMControlNet_init 1280 3 8 320 [128, 320, 640, 1280]))"
  by (simp add: HMControlNet_init_def HMControlNet2_init_def make_blocks_def)

text \<open>
  Claim C7, amended. Given the same arguments, \<open>HMControlNet2\<close> is constructed whenever
  \<open>HMControlNet\<close> is, with the same \<open>scale_factor\<close>, \<open>embedding_channels\<close>,
  \<open>cross_attention_dim\<close>, \<open>conv_in\<close> and sinusoidal encoder, with \<open>emo_proj\<close>
  configured as \<open>exp_proj\<close> is (and no \<open>face_proj\<close>: the record has no such field), and
  with as many fusion blocks, each equal to the corresponding block of \<open>HMControlNet\<close>
  except for \<open>num_positional_embeddings_hidden\<close>, which is 1024 instead of 64.
\<close>

theorem HMControlNet2_same_but_hidden_width:
  assumes "HMControlNet_init ec ic sf cad boc = Inr n1"
  shows "\<exists>n2. HMControlNet2_init ec ic sf cad boc = Inr n2
     \<and> scale_factor n2 = scale_factor n1
     \<and> embedding_channels n2 = embedding_channels n1
     \<and> hm_module.cross_attention_dim n2 = hm_module.cross_attention_dim n1
     \<and> conv_in n2 = conv_in n1
     \<and> exp_embedding n2 = exp_embedding n1
     \<and> HMControlNet2.emo_proj n2 = HMControlNet.exp_proj n1
     \<and> length (blocks_down n2) = length (blocks_down n1)
     \<and> blocks_down n2 =
         map (\<lambda>b. b\<lparr>num_positional_embeddings_hidden := 1024\<rparr>) (blocks_down n1)
     \<and> list_all (\<lambda>b. num_positional_embeddings_hidden b = 64) (blocks_down n1)"
  using assms
  by (auto simp: HMControlNet_init_def HMControlNet2_init_def make_blocks_hidden
      list_all_iff make_blocks_64 split: list.splits)

theorem HMControlNet2_same_but_hidden_width_witness:
  "\<exists>n1 n2. HMControlNet_init 1280 3 8 320 [128, 320, 640, 1280] = Inr n1
     \<and> HMControlNet2_init 1280 3 8 320 [128, 320, 640, 1280] = Inr n2
     \<and> conv_in n2 = conv_in n1
     \<and> blocks_down n2 =
         map (\<lambda>b. b\<lparr>num_positional_embeddings_hidden := 1024\<rparr>) (blocks_down n1)"
proof -
  have "HMControlNet_init 1280 3 8 320 [128, 320, 640, 1280] = Inr HMControlNet_default"
    by (simp add: HMControlNet_default_def HMControlNet_init_def)
  from HMControlNet2_same_but_hidden_width[OF this] this show ?thesis by blast
qed

section \<open>The selected branch of \<open>HMV3ControlNet\<close>\<close>

subsection \<open>The value of a branch\<close>

lemma fst_bnd_prim:
  "fst (bnd (prim opn args r) f w) =
     then_do r (\<lambda>x. fst (f x (w\<lparr>log := log w @ [Event opn args None]\<rparr>)))"
  by (cases r) (simp_all add: bnd_def prim_def then_do_def err_of_def)

lemma then_do_Inl: "then_do (Inl e) f = Inl e"
  by (simp add: then_do_def)

lemma then_do_Inr: "then_do (Inr x) f = f x"
  by (simp add: then_do_def)

lemma fst_bnd_get_self: "fst (bnd get_self f w) = fst (f (net w) w)"
  by (simp add: bnd_def get_self_def)

lemma fst_bnd_get_param: "fst (bnd (get_param nm) f w) = fst (f (params w nm) w)"
  by (simp add: bnd_def get_param_def)

lemma fst_prim: "fst (prim opn args r w) = r"
  by (simp add: prim_def)

lemmas fst_exec = fst_bnd_prim fst_bnd_get_self fst_bnd_get_param fst_prim bnd_assoc

lemma dual_signal_value:
  "fst (dual_signal fw ep fp bs F e dc fps w) =
     dual_value fw (exp_embedding (net w)) (fp (net w)) (params w Face_proj)
       (ep (net w)) (params w Exp_proj) (hm_module.cross_attention_dim (net w))
       bs F (dtype e) dc fps"
  by (simp add: dual_signal_def py_mul_def rearrange_m_def call_timesteps_def
      call_timestep_embedding_def fst_exec dual_value_def del: rearrange.simps)

lemma emo_signal_value:
  "fst (emo_signal fw enc enc_of ep bs F e emo w) =
     emo_value fw (enc_of (net w)) (ep (net w)) (params w Emo_proj)
       (hm_module.cross_attention_dim (net w)) bs F (dtype e) emo"
  by (cases emo)
     (simp_all add: emo_signal_def py_mul_def rearrange_m_def call_timesteps_def
      call_timestep_embedding_def fst_exec emo_value_def then_do_Inl del: rearrange.simps)

subsection \<open>The driving embedding of the fusion blocks\<close>







subsection \<open>Independence\<close>





































section \<open>What a returning loop has stored\<close>

lemma update_fresh: "k \<notin> fst ` set al \<Longrightarrow> AList.update k v al = al @ [(k, v)]"
  by (induction al) auto

lemma blocks_loop_step:
  assumes "blocks_loop fw key_of F (block # rest) idx e d rd w = (Inr rd', w')"
  obtains e1 t w3 where
    "sk_cross_attention_fwd fw block (params w (Blocks_down idx)) e d = Inr e1"
    "rearrange e1 (Unflatten_frames F) = Inr t"
    "heap w3 = heap w @ [t]" "net w3 = net w" "params w3 = params w"
    "blocks_loop fw key_of F rest (Suc idx) e1 d
        (AList.update (key_of (net w) idx) (length (heap w)) rd) w3 = (Inr rd', w')"
proof -
  from assms obtain e1 w1 t w2 where
    blk: "call_block fw idx block e d w = (Inr e1, w1)"
    and rea: "rearrange_m e1 (Unflatten_frames F) w1 = (Inr t, w2)"
    and rest: "blocks_loop fw key_of F rest (Suc idx) e1 d
        (AList.update (key_of (net w2) idx) (length (heap w2)) rd)
        (w2\<lparr>heap := heap w2 @ [t]\<rparr>) = (Inr rd', w')"
    by (auto elim!: bnd_InrE simp: hm_eq)
  from call_block_Inr[OF blk] have
    out: "sk_cross_attention_fwd fw block (params w (Blocks_down idx)) e d = Inr e1"
    and w1: "heap w1 = heap w" "net w1 = net w" "params w1 = params w" by auto
  from rearrange_m_Inr[OF rea] have
    t: "rearrange e1 (Unflatten_frames F) = Inr t"
    and w2: "heap w2 = heap w" "net w2 = net w" "params w2 = params w" using w1 by auto
  show thesis
    by (rule that[of e1 t "w2\<lparr>heap := heap w2 @ [t]\<rparr>"]) (use out t w2 rest in simp_all)
qed


lemma blocks_loop_Inr:
  assumes "blocks_loop fw key_of F blocks idx e d rd w = (Inr rd', w')"
    and "inj (key_of (net w))"
    and "fst ` set rd \<subseteq> key_of (net w) ` {..<idx}"
  shows "\<exists>ts. length ts = length blocks
     \<and> heap w' = heap w @ ts \<and> net w' = net w \<and> params w' = params w
     \<and> list_all2 (\<lambda>out t. rearrange out (Unflatten_frames F) = Inr t)
          (block_outputs fw (params w) blocks idx e d) ts
     \<and> rd' = rd @ map (\<lambda>i. (key_of (net w) (idx + i), length (heap w) + i))
                     [0..<length blocks]"
  using assms
proof (induction blocks arbitrary: idx e rd w)
  case Nil
  then show ?case by (simp add: hm_eq)
next
  case (Cons block rest)
  let ?k = "key_of (net w)"
  let ?h = "length (heap w)"
  from Cons.prems(1) obtain e1 t w3 where
    out: "sk_cross_attention_fwd fw block (params w (Blocks_down idx)) e d = Inr e1"
    and t: "rearrange e1 (Unflatten_frames F) = Inr t"
    and w3: "heap w3 = heap w @ [t]" "net w3 = net w" "params w3 = params w"
    and rest: "blocks_loop fw key_of F rest (Suc idx) e1 d
        (AList.update (?k idx) ?h rd) w3 = (Inr rd', w')"
    by (rule blocks_loop_step)
  have fresh: "?k idx \<notin> fst ` set rd"
  proof
    assume "?k idx \<in> fst ` set rd"
    with Cons.prems(3) obtain j where "j < idx" "?k idx = ?k j" by blast
    with Cons.prems(2) show False by (auto dest: injD)
  qed
  then have upd: "AList.update (?k idx) ?h rd = rd @ [(?k idx, ?h)]"
    by (rule update_fresh)
  have inj3: "inj (key_of (net w3))" using Cons.prems(2) w3(2) by simp
  have old3: "fst ` set (rd @ [(?k idx, ?h)]) \<subseteq> key_of (net w3) ` {..<Suc idx}"
    using Cons.prems(3) w3(2) by (auto simp: lessThan_Suc)
  from rest upd have rest': "blocks_loop fw key_of F rest (Suc idx) e1 d
        (rd @ [(?k idx, ?h)]) w3 = (Inr rd', w')" by simp
  from Cons.IH[OF rest' inj3 old3] obtain ts where
    len: "length ts = length rest" and hp: "heap w' = heap w3 @ ts"
    and nt: "net w' = net w3" and pr: "params w' = params w3"
    and l2: "list_all2 (\<lambda>out t. rearrange out (Unflatten_frames F) = Inr t)
          (block_outputs fw (params w3) rest (Suc idx) e1 d) ts"
    and rd': "rd' = (rd @ [(?k idx, ?h)])
         @ map (\<lambda>i. (key_of (net w3) (Suc idx + i), length (heap w3) + i)) [0..<length rest]"
    by blast
  have m: "map (\<lambda>i. (?k (idx + i), ?h + i)) [0..<Suc (length rest)] =
      (?k idx, ?h) # map (\<lambda>i. (?k (Suc idx + i), Suc ?h + i)) [0..<length rest]"
    by (simp only: map_upt_Suc) simp
  have a: "length (t # ts) = length (block # rest)" using len by simp
  have b: "heap w' = heap w @ t # ts" using hp w3(1) by simp
  have c: "list_all2 (\<lambda>out t. rearrange out (Unflatten_frames F) = Inr t)
          (block_outputs fw (params w) (block # rest) idx e d) (t # ts)"
    using l2 out t w3(3) by simp
  have ln: "length (block # rest) = Suc (length rest)" by simp
  have e: "rd' = rd @ map (\<lambda>i. (?k (idx + i), ?h + i)) [0..<length (block # rest)]"
    unfolding ln m rd' w3 by simp
  have n': "net w' = net w" using nt w3(2) by simp
  have p': "params w' = params w" using pr w3(3) by simp
  show ?case by (rule exI[of _ "t # ts"]) (intro conjI a b c e n' p')
qed

subsection \<open>Steps that create no object\<close>

lemma keeps_heap_ret: "keeps_heap (ret x)"
  by (simp add: keeps_heap_def ret_def)

lemma keeps_heap_prim: "keeps_heap (prim opn args r)"
  by (simp add: keeps_heap_def prim_def)

lemma keeps_heap_get_self: "keeps_heap get_self"
  by (simp add: keeps_heap_def get_self_def)

lemma keeps_heap_get_param: "keeps_heap (get_param nm)"
  by (simp add: keeps_heap_def get_param_def)

lemma keeps_heap_bnd:
  assumes "keeps_heap m" and "\<And>x. keeps_heap (f x)"
  shows "keeps_heap (bnd m f)"
  unfolding keeps_heap_def
proof
  fix w
  from assms(1) have a: "heap (snd (m w)) = heap w" by (simp add: keeps_heap_def)
  show "heap (snd (bnd m f w)) = heap w"
  proof (cases "m w")
    case (Pair r w1)
    with a have h1: "heap w1 = heap w" by simp
    show ?thesis
    proof (cases r)
      case (Inl e)
      with Pair h1 show ?thesis by (simp add: bnd_def)
    next
      case (Inr x)
      from assms(2)[of x] have "heap (snd (f x w1)) = heap w1" by (simp add: keeps_heap_def)
      with Pair Inr h1 show ?thesis by (simp add: bnd_def)
    qed
  qed
qed

lemma keeps_heap_case_prod: "(\<And>a b. keeps_heap (f a b)) \<Longrightarrow> keeps_heap (case_prod f p)"
  by (cases p) simp

lemmas keeps_heap_intros = keeps_heap_ret keeps_heap_prim keeps_heap_get_self
  keeps_heap_get_param keeps_heap_bnd keeps_heap_case_prod

lemma keeps_heap_helpers:
  "keeps_heap (rearrange_m t p)"
  "keeps_heap (py_mul fw v c)"
  "keeps_heap (call_conv2d fw nm sel x)"
  "keeps_heap (call_timesteps fw enc enc_of x)"
  "keeps_heap (call_timestep_embedding fw nm sel2 x)"
  unfolding rearrange_m_def py_mul_def call_conv2d_def call_timesteps_def
    call_timestep_embedding_def
  by (auto intro!: keeps_heap_intros split: option.splits)

lemma keeps_heap_embed_condition: "keeps_heap (embed_condition fw condition)"
  unfolding embed_condition_def
  by (intro keeps_heap_intros keeps_heap_helpers)

lemma keeps_heap_dual_signal: "keeps_heap (dual_signal fw ep fp bs F e dc fps)"
  unfolding dual_signal_def
  by (intro keeps_heap_intros keeps_heap_helpers)

lemma keeps_heap_emo_signal: "keeps_heap (emo_signal fw enc enc_of ep bs F e emo)"
  unfolding emo_signal_def
  by (intro keeps_heap_intros keeps_heap_helpers)

lemma keeps_heap_HMV3_drive: "keeps_heap (HMV3_drive fw bs F e dco fpo emo)"
  unfolding HMV3_drive_def
  by (auto split: option.splits intro: keeps_heap_dual_signal keeps_heap_emo_signal)

text \<open>The world after a step that reads only and creates nothing.\<close>

lemma same_store:
  assumes "reads_only m" and "keeps_heap m" and "m w = (r, w1)"
  shows "net w1 = net w" "params w1 = params w" "heap w1 = heap w"
  using assms by (auto simp: reads_only_def preserved_def keeps_heap_def dest!: spec[of _ w])

subsection \<open>A forward pass that returns\<close>

lemma forward_Inr:
  assumes "bnd (embed_condition fw c)
      (\<lambda>(bs, F, e). bnd (sig bs F e) (\<lambda>d. bnd get_self (\<lambda>self. loop F self e d))) w
      = (Inr rd, w')"
  obtains bs F e w1 d w2 where
    "embed_condition fw c w = (Inr (bs, F, e), w1)"
    "sig bs F e w1 = (Inr d, w2)"
    "loop F (net w2) e d w2 = (Inr rd, w')"
  using assms by (auto elim!: bnd_InrE simp: hm_eq split: prod.splits)

lemma simple_forward_Inr:
  assumes run: "bnd (embed_condition fw c)
      (\<lambda>(bs, F, e). bnd (sig bs F e) (\<lambda>d. bnd get_self
         (\<lambda>self. blocks_loop fw key_of F (blocks_down self) 0 e d []))) w = (Inr rd, w')"
    and ro: "\<And>bs F e. reads_only (sig bs F e)"
    and kh: "\<And>bs F e. keeps_heap (sig bs F e)"
    and inj: "inj (key_of (net w))"
  obtains bs F e w1 d w2 ts where
    "embed_condition fw c w = (Inr (bs, F, e), w1)"
    "net w1 = net w" "params w1 = params w"
    "sig bs F e w1 = (Inr d, w2)"
    "length ts = length (blocks_down (net w))"
    "heap w' = heap w @ ts" "net w' = net w" "params w' = params w"
    "list_all2 (\<lambda>out t. rearrange out (Unflatten_frames F) = Inr t)
       (block_outputs fw (params w) (blocks_down (net w)) 0 e d) ts"
    "rd = map (\<lambda>i. (key_of (net w) i, length (heap w) + i))
            [0..<length (blocks_down (net w))]"
proof -
  from run obtain bs F e w1 d w2 where
    em: "embed_condition fw c w = (Inr (bs, F, e), w1)"
    and sg: "sig bs F e w1 = (Inr d, w2)"
    and lp: "blocks_loop fw key_of F (blocks_down (net w2)) 0 e d [] w2 = (Inr rd, w')"
    by (rule forward_Inr)
  note s1 = same_store[OF reads_only_embed_condition keeps_heap_embed_condition em]
  note s2 = same_store[OF ro kh sg]
  have i2: "inj (key_of (net w2))" using inj s1 s2 by simp
  have o2: "fst ` set ([] :: ret_dict) \<subseteq> key_of (net w2) ` {..<0}" by simp
  from blocks_loop_Inr[OF lp i2 o2] obtain ts where
    "length ts = length (blocks_down (net w2))"
    "heap w' = heap w2 @ ts" "net w' = net w2" "params w' = params w2"
    "list_all2 (\<lambda>out t. rearrange out (Unflatten_frames F) = Inr t)
       (block_outputs fw (params w2) (blocks_down (net w2)) 0 e d) ts"
    "rd = [] @ map (\<lambda>i. (key_of (net w2) (0 + i), length (heap w2) + i))
            [0..<length (blocks_down (net w2))]"
    by blast
  with s1 s2 have
    "length ts = length (blocks_down (net w))"
    "heap w' = heap w @ ts" "net w' = net w" "params w' = params w"
    "list_all2 (\<lambda>out t. rearrange out (Unflatten_frames F) = Inr t)
       (block_outputs fw (params w) (blocks_down (net w)) 0 e d) ts"
    "rd = map (\<lambda>i. (key_of (net w) i, length (heap w) + i))
            [0..<length (blocks_down (net w))]"
    by simp_all
  with em s1(1,2) sg show thesis by (rule that)
qed

lemma up_idx_nat:
  "i < length (blocks_down self) \<Longrightarrow>
   string_of_int (up_idx_of self i) = string_of_nat (length (blocks_down self) - 1 - i)"
  by (simp add: up_idx_of_def string_of_int_def nat_diff_distrib') 

lemma inj_up_v2_key: "inj (up_v2_key self)"
  by (rule injI) (auto simp: up_v2_key_def up_idx_of_def dest!: string_of_int_inj)

lemma inj_up2_v2_key: "inj (up2_v2_key self)"
  by (rule injI) (auto simp: up2_v2_key_def up_idx_of_def dest!: string_of_int_inj)

lemma inj_down_key: "inj (down_key self)"
  by (rule injI) (auto simp: down_key_def dest!: string_of_nat_inj)

lemma inj_down2_key: "inj (down2_key self)"
  by (rule injI) (auto simp: down2_key_def dest!: string_of_nat_inj)

lemma rev_upt_0: "rev [0..<n] = map (\<lambda>i. n - 1 - i) [0..<n]"
  by (rule nth_equalityI) (simp_all add: rev_nth)

lemma descending_keys:
  assumes "rd = map (\<lambda>i. (pre @ string_of_int (up_idx_of self i), h + i))
      [0..<length (blocks_down self)]"
  shows "rd = map (\<lambda>i. (pre @ string_of_nat (length (blocks_down self) - 1 - i), h + i))
      [0..<length (blocks_down self)]"
    and "map fst rd = map (\<lambda>j. pre @ string_of_nat j) (rev [0..<length (blocks_down self)])"
proof -
  show a: "rd = map (\<lambda>i. (pre @ string_of_nat (length (blocks_down self) - 1 - i), h + i))
      [0..<length (blocks_down self)]"
    unfolding assms by (rule map_cong) (simp_all add: up_idx_nat)
  show "map fst rd = map (\<lambda>j. pre @ string_of_nat j) (rev [0..<length (blocks_down self)])"
    unfolding a rev_upt_0 by (simp add: comp_def)
qed

lemma length_make_blocks: "length (make_blocks cad hidden boc) = length boc - 1"
  by (simp add: make_blocks_def)

section \<open>The order of the stage keys\<close>

text \<open>
  Claim C6. A call of \<open>HMV2ControlNet.forward\<close> that returns has stored the output of
  the \<open>i\<close>-th fusion block, counting from 0, under \<open>up_v2_{N-1-i}\<close>, where \<open>N\<close>
  is the number of fusion blocks: the dictionary holds, in the order of insertion,
  \<open>up_v2_{N-1}\<close> down to \<open>up_v2_0\<close>, its \<open>i\<close>-th entry referring to the \<open>i\<close>-th
  object the call created, which is the \<open>i\<close>-th output of the fusion chain with the
  frame axis split off. \<open>HMV2ControlNet2.forward\<close> does the same under \<open>up2_v2_*\<close>.
  In a network built by the constructor \<open>N\<close> is \<open>len(block_out_channels) - 1\<close>.
\<close>

theorem HMV2_keys_descend:
  fixes w :: "('a, 'p, HMV2ControlNet) world" and v :: "('a, 'p, HMV2ControlNet2) world"
  shows
    "(HMV2ControlNet_forward fw condition drive_coeff face_parts w = (Inr ret_dict, w') \<longrightarrow>
        (let N = length (blocks_down (net w)) in
           map fst ret_dict = map (\<lambda>j. ''up_v2_'' @ string_of_nat j) (rev [0..<N])
         \<and> (\<exists>bs F e d ts.
               fst (embed_condition fw condition w) = Inr (bs, F, e)
             \<and> dual_value fw (exp_embedding (net w)) (HMV2ControlNet.face_proj (net w))
                  (params w Face_proj) (HMV2ControlNet.exp_proj (net w)) (params w Exp_proj)
                  (hm_module.cross_attention_dim (net w)) bs F (dtype e)
                  drive_coeff face_parts = Inr d
             \<and> length ts = N \<and> heap w' = heap w @ ts
             \<and> list_all2 (\<lambda>out t. rearrange out (Unflatten_frames F) = Inr t)
                  (block_outputs fw (params w) (blocks_down (net w)) 0 e d) ts
             \<and> ret_dict = map (\<lambda>i. (''up_v2_'' @ string_of_nat (N - 1 - i),
                                     length (heap w) + i)) [0..<N])))
   \<and> (HMV2ControlNet2_forward fw condition emo v = (Inr ret_dict2, v') \<longrightarrow>
        (let N = length (blocks_down (net v)) in
           map fst ret_dict2 = map (\<lambda>j. ''up2_v2_'' @ string_of_nat j) (rev [0..<N])
         \<and> (\<exists>bs F e d ts.
               fst (embed_condition fw condition v) = Inr (bs, F, e)
             \<and> emo_value fw (exp_embedding (net v)) (HMV2ControlNet2.emo_proj (net v))
                  (params v Emo_proj) (hm_module.cross_attention_dim (net v)) bs F (dtype e)
                  (Some emo) = Inr d
             \<and> length ts = N \<and> heap v' = heap v @ ts
             \<and> list_all2 (\<lambda>out t. rearrange out (Unflatten_frames F) = Inr t)
                  (block_outputs fw (params v) (blocks_down (net v)) 0 e d) ts
             \<and> ret_dict2 = map (\<lambda>i. (''up2_v2_'' @ string_of_nat (N - 1 - i),
                                      length (heap v) + i)) [0..<N])))
   \<and> (HMV2ControlNet_init ec ic sf cad boc = Inr n \<longrightarrow>
         length (blocks_down n) = length boc - 1)
   \<and> (HMV2ControlNet2_init ec ic sf cad boc = Inr n2 \<longrightarrow>
         length (blocks_down n2) = length boc - 1)"
proof (intro conjI impI)
  assume run: "HMV2ControlNet_forward fw condition drive_coeff face_parts w = (Inr ret_dict, w')"
  let ?N = "length (blocks_down (net w))"
  from run[unfolded HMV2ControlNet_forward_def] obtain bs F e w1 d w2 ts where
    em: "embed_condition fw condition w = (Inr (bs, F, e), w1)"
    and w1: "net w1 = net w" "params w1 = params w"
    and sg: "dual_signal fw HMV2ControlNet.exp_proj HMV2ControlNet.face_proj bs F e
        drive_coeff face_parts w1 = (Inr d, w2)"
    and ts: "length ts = ?N" "heap w' = heap w @ ts"
    and outs: "list_all2 (\<lambda>out t. rearrange out (Unflatten_frames F) = Inr t)
       (block_outputs fw (params w) (blocks_down (net w)) 0 e d) ts"
    and rd: "ret_dict = map (\<lambda>i. (up_v2_key (net w) i, length (heap w) + i)) [0..<?N]"
    by (rule simple_forward_Inr[OF _ reads_only_dual_signal keeps_heap_dual_signal
          inj_up_v2_key])
  from sg have "fst (dual_signal fw HMV2ControlNet.exp_proj HMV2ControlNet.face_proj bs F e
        drive_coeff face_parts w1) = Inr d" by simp
  then have dv: "dual_value fw (exp_embedding (net w)) (HMV2ControlNet.face_proj (net w))
      (params w Face_proj) (HMV2ControlNet.exp_proj (net w)) (params w Exp_proj)
      (hm_module.cross_attention_dim (net w)) bs F (dtype e) drive_coeff face_parts = Inr d"
    unfolding dual_signal_value w1 .
  from rd have rd0: "ret_dict = map (\<lambda>i. (''up_v2_'' @ string_of_int (up_idx_of (net w) i),
      length (heap w) + i)) [0..<?N]"
    by (simp add: up_v2_key_def)
  note k = descending_keys[OF rd0]
  from em have e1: "fst (embed_condition fw condition w) = Inr (bs, F, e)" by simp
  from e1 dv ts outs k(1) have "\<exists>bs F e d ts.
        fst (embed_condition fw condition w) = Inr (bs, F, e)
      \<and> dual_value fw (exp_embedding (net w)) (HMV2ControlNet.face_proj (net w))
           (params w Face_proj) (HMV2ControlNet.exp_proj (net w)) (params w Exp_proj)
           (hm_module.cross_attention_dim (net w)) bs F (dtype e)
           drive_coeff face_parts = Inr d
      \<and> length ts = ?N \<and> heap w' = heap w @ ts
      \<and> list_all2 (\<lambda>out t. rearrange out (Unflatten_frames F) = Inr t)
           (block_outputs fw (params w) (blocks_down (net w)) 0 e d) ts
      \<and> ret_dict = map (\<lambda>i. (''up_v2_'' @ string_of_nat (?N - 1 - i),
                              length (heap w) + i)) [0..<?N]"
    by blast
  with k(2) show "let N = length (blocks_down (net w)) in
       map fst ret_dict = map (\<lambda>j. ''up_v2_'' @ string_of_nat j) (rev [0..<N])
     \<and> (\<exists>bs F e d ts.
           fst (embed_condition fw condition w) = Inr (bs, F, e)
         \<and> dual_value fw (exp_embedding (net w)) (HMV2ControlNet.face_proj (net w))
              (params w Face_proj) (HMV2ControlNet.exp_proj (net w)) (params w Exp_proj)
              (hm_module.cross_attention_dim (net w)) bs F (dtype e)
              drive_coeff face_parts = Inr d
         \<and> length ts = N \<and> heap w' = heap w @ ts
         \<and> list_all2 (\<lambda>out t. rearrange out (Unflatten_frames F) = Inr t)
              (block_outputs fw (params w) (blocks_down (net w)) 0 e d) ts
         \<and> ret_dict = map (\<lambda>i. (''up_v2_'' @ string_of_nat (N - 1 - i),
                                 length (heap w) + i)) [0..<N])"
    unfolding Let_def by (rule conjI)
next
  assume run: "HMV2ControlNet2_forward fw condition emo v = (Inr ret_dict2, v')"
  let ?N = "length (blocks_down (net v))"
  from run[unfolded HMV2ControlNet2_forward_def] obtain bs F e w1 d w2 ts where
    em: "embed_condition fw condition v = (Inr (bs, F, e), w1)"
    and w1: "net w1 = net v" "params w1 = params v"
    and sg: "emo_signal fw Exp_embedding exp_embedding HMV2ControlNet2.emo_proj bs F e
        (Some emo) w1 = (Inr d, w2)"
    and ts: "length ts = ?N" "heap v' = heap v @ ts"
    and outs: "list_all2 (\<lambda>out t. rearrange out (Unflatten_frames F) = Inr t)
       (block_outputs fw (params v) (blocks_down (net v)) 0 e d) ts"
    and rd: "ret_dict2 = map (\<lambda>i. (up2_v2_key (net v) i, length (heap v) + i)) [0..<?N]"
    by (rule simple_forward_Inr[OF _ reads_only_emo_signal keeps_heap_emo_signal
          inj_up2_v2_key])
  from sg have "fst (emo_signal fw Exp_embedding exp_embedding HMV2ControlNet2.emo_proj bs F e
        (Some emo) w1) = Inr d" by simp
  then have dv: "emo_value fw (exp_embedding (net v)) (HMV2ControlNet2.emo_proj (net v))
      (params v Emo_proj) (hm_module.cross_attention_dim (net v)) bs F (dtype e)
      (Some emo) = Inr d"
    unfolding emo_signal_value w1 .
  from rd have rd0: "ret_dict2 = map (\<lambda>i. (''up2_v2_'' @ string_of_int (up_idx_of (net v) i),
      length (heap v) + i)) [0..<?N]"
    by (simp add: up2_v2_key_def)
  note k = descending_keys[OF rd0]
  from em have e1: "fst (embed_condition fw condition v) = Inr (bs, F, e)" by simp
  from e1 dv ts outs k(1) have "\<exists>bs F e d ts.
        fst (embed_condition fw condition v) = Inr (bs, F, e)
      \<and> emo_value fw (exp_embedding (net v)) (HMV2ControlNet2.emo_proj (net v))
           (params v Emo_proj) (hm_module.cross_attention_dim (net v)) bs F (dtype e)
           (Some emo) = Inr d
      \<and> length ts = ?N \<and> heap v' = heap v @ ts
      \<and> list_all2 (\<lambda>out t. rearrange out (Unflatten_frames F) = Inr t)
           (block_outputs fw (params v) (blocks_down (net v)) 0 e d) ts
      \<and> ret_dict2 = map (\<lambda>i. (''up2_v2_'' @ string_of_nat (?N - 1 - i),
                               length (heap v) + i)) [0..<?N]"
    by blast
  with k(2) show "let N = length (blocks_down (net v)) in
       map fst ret_dict2 = map (\<lambda>j. ''up2_v2_'' @ string_of_nat j) (rev [0..<N])
     \<and> (\<exists>bs F e d ts.
           fst (embed_condition fw condition v) = Inr (bs, F, e)
         \<and> emo_value fw (exp_embedding (net v)) (HMV2ControlNet2.emo_proj (net v))
              (params v Emo_proj) (hm_module.cross_attention_dim (net v)) bs F (dtype e)
              (Some emo) = Inr d
         \<and> length ts = N \<and> heap v' = heap v @ ts
         \<and> list_all2 (\<lambda>out t. rearrange out (Unflatten_frames F) = Inr t)
              (block_outputs fw (params v) (blocks_down (net v)) 0 e d) ts
         \<and> ret_dict2 = map (\<lambda>i. (''up2_v2_'' @ string_of_nat (N - 1 - i),
                                  length (heap v) + i)) [0..<N])"
    unfolding Let_def by (rule conjI)
next
  assume "HMV2ControlNet_init ec ic sf cad boc = Inr n"
  then show "length (blocks_down n) = length boc - 1"
    by (auto simp: HMV2ControlNet_init_def length_make_blocks split: list.splits)
next
  assume "HMV2ControlNet2_init ec ic sf cad boc = Inr n2"
  then show "length (blocks_down n2) = length boc - 1"
    by (auto simp: HMV2ControlNet2_init_def length_make_blocks split: list.splits)
qed

theorem HMV2_keys_descend_witness:
  "\<exists>ret_dict w' ret_dict2 v'.
     HMV2ControlNet_forward shape_fw demo_condition demo_drive_coeff demo_face_parts
       (start HMV2ControlNet_default) = (Inr ret_dict, w')
   \<and> map fst ret_dict = [''up_v2_3'', ''up_v2_2'', ''up_v2_1'', ''up_v2_0'']
   \<and> map snd ret_dict = [0, 1, 2, 3]
   \<and> length (heap w') = 4
   \<and> HMV2ControlNet2_forward shape_fw demo_condition demo_emo
       (start HMV2ControlNet2_default) = (Inr ret_dict2, v')
   \<and> map fst ret_dict2 = [''up2_v2_3'', ''up2_v2_2'', ''up2_v2_1'', ''up2_v2_0'']
   \<and> map snd ret_dict2 = [0, 1, 2, 3]
   \<and> length (heap v') = 4
   \<and> length (blocks_down HMV2ControlNet_default) = 4
   \<and> length (blocks_down HMV2ControlNet2_default) = 4"
proof -
  let ?boc = "[128, 640, 1280, 1280, 1280] :: nat list"
  from fst_InrD[OF HMV2ControlNet_default_run] obtain w' where
    r1: "HMV2ControlNet_forward shape_fw demo_condition demo_drive_coeff demo_face_parts
       (start HMV2ControlNet_default) =
       (Inr [(''up_v2_3'', 0), (''up_v2_2'', 1), (''up_v2_1'', 2), (''up_v2_0'', 3)], w')"
    by blast
  from fst_InrD[OF HMV2ControlNet2_default_run] obtain v' where
    r2: "HMV2ControlNet2_forward shape_fw demo_condition demo_emo
       (start HMV2ControlNet2_default) =
       (Inr [(''up2_v2_3'', 0), (''up2_v2_2'', 1), (''up2_v2_1'', 2), (''up2_v2_0'', 3)], v')"
    by blast
  have i1: "HMV2ControlNet_init 1280 3 4 320 ?boc = Inr HMV2ControlNet_default"
    by (simp add: HMV2ControlNet_default_def HMV2ControlNet_init_def)
  have i2: "HMV2ControlNet2_init 1280 3 4 320 ?boc = Inr HMV2ControlNet2_default"
    by (simp add: HMV2ControlNet2_default_def HMV2ControlNet2_init_def)
  note T = HMV2_keys_descend[where fw = shape_fw and condition = demo_condition
      and drive_coeff = demo_drive_coeff and face_parts = demo_face_parts
      and w = "start HMV2ControlNet_default" and w' = w'
      and ret_dict = "[(''up_v2_3'', 0), (''up_v2_2'', 1), (''up_v2_1'', 2), (''up_v2_0'', 3)]"
      and emo = demo_emo and v = "start HMV2ControlNet2_default" and v' = v'
      and ?ret_dict2.0 = "[(''up2_v2_3'', 0), (''up2_v2_2'', 1), (''up2_v2_1'', 2), (''up2_v2_0'', 3)]"
      and ec = 1280 and ic = 3 and sf = 4 and cad = 320 and boc = ?boc
      and n = HMV2ControlNet_default and ?n2.0 = HMV2ControlNet2_default]
  have n1: "length (blocks_down HMV2ControlNet_default) = 4"
    using T[THEN conjunct2, THEN conjunct2, THEN conjunct1, rule_format, OF i1] by simp
  have n2: "length (blocks_down HMV2ControlNet2_default) = 4"
    using T[THEN conjunct2, THEN conjunct2, THEN conjunct2, rule_format, OF i2] by simp
  from T[THEN conjunct1, rule_format, OF r1, unfolded Let_def, THEN conjunct2]
  obtain ts where "length ts = length (blocks_down (net (start HMV2ControlNet_default)))"
    "heap w' = heap (start HMV2ControlNet_default) @ ts" by blast
  then have h1: "length (heap w') = 4" unfolding start_def using n1 by simp
  from T[THEN conjunct2, THEN conjunct1, rule_format, OF r2, unfolded Let_def, THEN conjunct2]
  obtain ts2 where "length ts2 = length (blocks_down (net (start HMV2ControlNet2_default)))"
    "heap v' = heap (start HMV2ControlNet2_default) @ ts2" by blast
  then have h2: "length (heap v') = 4" unfolding start_def using n2 by simp
  note a = h1 n1 and b = h2 n2
  from r1 r2 a b show ?thesis by simp
qed

end
